theory Spec2Isabelle
  imports Main
begin

section \<open>JavaScript values and the backend client\<close>

text \<open>
  Strings are sequences of code units; the empty string is the only falsy string.
  Nullable columns and optional arguments (\<open>null\<close>, \<open>undefined\<close>) are \<open>option\<close>s.
  Row and user identifiers are the store's generated keys (UUID strings), so the plain
  object used as a dictionary in \<open>fetchTourists\<close> is a finite map on them.
\<close>

definition truthy :: "string \<Rightarrow> bool" where
  "truthy s = (s \<noteq> [])"

text \<open>\<open>x || d\<close> on a possibly missing string: \<open>null\<close>, \<open>undefined\<close> and \<open>''\<close> give \<open>d\<close>.\<close>

definition js_or :: "string option \<Rightarrow> string \<Rightarrow> string" where
  "js_or x d = (case x of None \<Rightarrow> d | Some s \<Rightarrow> if truthy s then s else d)"

text \<open>The values that occur in the object literals sent to the backend.\<close>

datatype json = JString string | JNumber int | JArray "string list" | JUndefined

text \<open>An object literal: its keys, in source order, with their values.\<close>

type_synonym payload = "(string \<times> json) list"

definition of_optional :: "string option \<Rightarrow> json" where
  "of_optional x = (case x of None \<Rightarrow> JUndefined | Some s \<Rightarrow> JString s)"

text \<open>An error object of the backend client; \<open>message\<close> may be missing.\<close>

datatype store_error = StoreError (message: "string option")

datatype variant = Default | Destructive

datatype fetcher = FetchTourists | FetchGuides | FetchAssignments | FetchGuideRequests | FetchDrivers

text \<open>
  What a handler does besides updating the component state, in the order it does it:
  toasts shown to the user, console output, calls on the backend client
  (\<open>from(table).insert([row])\<close>, \<open>from(table).update(changes).eq(column, value)\<close>,
  \<open>from(table).upsert(row)\<close>, \<open>functions.invoke(name, {body})\<close>, \<open>auth.signUp\<close>),
  the fetchers it starts, and the \<open>onLoginSuccess\<close> callback. What the backend answers
  is an argument of the handler; the reads of a fetcher are its arguments too.
\<close>

datatype effect =
    Toast string string variant
  | ConsoleError string
  | Insert string payload
  | Update string payload string string
  | Upsert string payload
  | Invoke string payload
  | AuthSignUp string string payload
  | Refetch fetcher
  | OnLoginSuccess string string

fun is_backend_call :: "effect \<Rightarrow> bool" where
  "is_backend_call (Toast _ _ _) = False"
| "is_backend_call (ConsoleError _) = False"
| "is_backend_call (OnLoginSuccess _ _) = False"
| "is_backend_call _ = True"

text \<open>The calls that write to a table of the store.\<close>

fun is_store_write :: "effect \<Rightarrow> bool" where
  "is_store_write (Insert _ _) = True"
| "is_store_write (Update _ _ _ _) = True"
| "is_store_write (Upsert _ _) = True"
| "is_store_write _ = False"

fun is_error_toast :: "effect \<Rightarrow> bool" where
  "is_error_toast (Toast _ _ Destructive) = True"
| "is_error_toast _ = False"

section \<open>Strings: \<open>trim\<close>, \<open>split\<close>, and ISO dates\<close>

text \<open>
  Code units are modelled by \<open>char\<close> (the units below 256). In that range the white space
  and line terminators of ECMAScript, which \<open>String.prototype.trim\<close> strips and the
  regular-expression class \<open>\s\<close> matches, are TAB, LF, VT, FF, CR, SPACE and NBSP.
\<close>

definition isWhiteSpace :: "char \<Rightarrow> bool" where
  "isWhiteSpace c =
     (c \<in> set [CHR 0x09, CHR 0x0A, CHR 0x0B, CHR 0x0C, CHR 0x0D, CHR 0x20, CHR 0xA0])"

definition trim :: "string \<Rightarrow> string" where
  "trim s = rev (dropWhile isWhiteSpace (rev (dropWhile isWhiteSpace s)))"

text \<open>
  \<open>s.split(c)\<close> for a one-character separator: the pieces between the separators, in
  order; there is always at least one piece (\<open>''.split(',')\<close> is \<open>['']\<close>).
\<close>

fun js_split :: "char \<Rightarrow> string \<Rightarrow> string list" where
  "js_split c [] = [[]]"
| "js_split c (x # xs) =
     (if x = c then [] # js_split c xs
      else (case js_split c xs of p # ps \<Rightarrow> (x # p) # ps | [] \<Rightarrow> [[x]]))"

text \<open>
  \<open>new Date(ms).toISOString()\<close> for a time in years 0 to 9999 (four-digit years):
  \<open>YYYY-MM-DDTHH:mm:ss.sssZ\<close> in UTC. The calendar date of a day number (days since
  1970-01-01) is computed in the proleptic Gregorian calendar.
\<close>

definition msPerDay :: int where
  "msPerDay = 24 * 60 * 60 * 1000"

definition digit_char :: "int \<Rightarrow> char" where
  "digit_char n = ''0123456789'' ! nat (n mod 10)"

definition pad2 :: "int \<Rightarrow> string" where
  "pad2 n = [digit_char (n div 10), digit_char n]"

definition pad3 :: "int \<Rightarrow> string" where
  "pad3 n = [digit_char (n div 100), digit_char (n div 10), digit_char n]"

definition pad4 :: "int \<Rightarrow> string" where
  "pad4 n = [digit_char (n div 1000), digit_char (n div 100), digit_char (n div 10), digit_char n]"

definition civil_from_days :: "int \<Rightarrow> int \<times> int \<times> int" where
  "civil_from_days days =
     (let z = days + 719468;
          era = z div 146097;
          doe = z mod 146097;
          yoe = (doe - doe div 1460 + doe div 36524 - doe div 146096) div 365;
          doy = doe - (365 * yoe + yoe div 4 - yoe div 100);
          mp = (5 * doy + 2) div 153;
          d = doy - (153 * mp + 2) div 5 + 1;
          m = (if mp < 10 then mp + 3 else mp - 9);
          y = yoe + era * 400 + (if m \<le> 2 then 1 else 0)
      in (y, m, d))"

definition utc_date :: "int \<Rightarrow> string" where
  "utc_date days =
     (case civil_from_days days of
        (y, m, d) \<Rightarrow> pad4 y @ ''-'' @ pad2 m @ ''-'' @ pad2 d)"

definition utc_time :: "int \<Rightarrow> string" where
  "utc_time ms =
     pad2 (ms div 3600000) @ '':'' @ pad2 (ms div 60000 mod 60) @ '':'' @
     pad2 (ms div 1000 mod 60) @ ''.'' @ pad3 (ms mod 1000)"

definition toISOString :: "int \<Rightarrow> string" where
  "toISOString ms = utc_date (ms div msPerDay) @ ''T'' @ utc_time (ms mod msPerDay) @ ''Z''"

text \<open>\<open>new Date(ms).toISOString().split('T')[0]\<close>\<close>

definition iso_date_part :: "int \<Rightarrow> string" where
  "iso_date_part ms = hd (js_split CHR ''T'' (toISOString ms))"

section \<open>The admin dashboard: data model\<close>

datatype tourist_status = TouristActive | TouristPending | TouristAssigned

record Tourist =
  id :: string
  name :: string
  email :: string
  phone :: string
  nationality :: string
  status :: tourist_status
  assignedGuide :: string

text \<open>
  The status of an assignment is declared as \<open>'pending' | 'active' | 'completed'\<close>, but
  \<open>fetchAssignments\<close> fills it from the stored column by an unchecked cast; it is the
  stored string.
\<close>

record Assignment =
  id :: string
  touristId :: string
  guideId :: string
  tourName :: string
  startDate :: string
  endDate :: string
  status :: string
  createdAt :: string

text \<open>The component state: one field for each \<open>useState\<close> cell the handlers read or write.\<close>

record admin_state =
  isLoggedIn :: bool
  adminId :: string
  password :: string
  tourists :: "Tourist list"
  assignments :: "Assignment list"
  selectedTourist :: string
  selectedGuide :: string
  tourName :: string
  startDate :: string
  endDate :: string
  newGuideName :: string
  newGuideEmail :: string
  newGuidePhone :: string
  newGuideId :: string
  newGuidePassword :: string
  newGuideSpecializations :: string
  newGuideStatus :: string
  isCreatingGuide :: bool
  reassignmentDialogOpen :: bool
  reassignmentNewGuideId :: string
  reassignmentTouristId :: string

text \<open>The state of a freshly mounted dashboard: the initial value of every cell.\<close>

definition initial_state :: admin_state where
  "initial_state =
     \<lparr>isLoggedIn = False, adminId = '''', password = '''', tourists = [], assignments = [],
      selectedTourist = '''', selectedGuide = '''', admin_state.tourName = '''',
      admin_state.startDate = '''', admin_state.endDate = '''',
      newGuideName = '''', newGuideEmail = '''', newGuidePhone = '''', newGuideId = '''',
      newGuidePassword = '''', newGuideSpecializations = '''', newGuideStatus = ''available'',
      isCreatingGuide = False, reassignmentDialogOpen = False,
      reassignmentNewGuideId = '''', reassignmentTouristId = ''''\<rparr>"

text \<open>A row of \<open>tour_assignments\<close> as the store returns it from \<open>select()\<close>.\<close>

record tour_assignment_row =
  id :: string
  tourist_id :: string
  guide_id :: string
  tour_name :: string
  start_date :: string
  end_date :: string
  status :: string
  created_at :: string

section \<open>Creating an assignment\<close>

text \<open>
  How \<open>functions.invoke\<close> can end: it resolves without an error, resolves with an error
  in its result (which the handler never reads), or rejects (which the handler catches).
\<close>

datatype invoke_result = InvokeOk | InvokeError | InvokeThrows

text \<open>
  \<open>handleAssignGuide\<close>, run against the store's answer to the insert (\<open>ins\<close>), the outcome
  of the notification call (\<open>ntf\<close>) and the clock read for \<open>createdAt\<close> (\<open>now\<close>, in
  milliseconds since the epoch). The handler runs without another event in between, so
  the list that \<open>setAssignments(prev => ...)\<close> extends is the list of the state.
\<close>

definition handleAssignGuide ::
  "admin_state \<Rightarrow> store_error + tour_assignment_row \<Rightarrow> invoke_result \<Rightarrow> int
     \<Rightarrow> admin_state \<times> effect list" where
  "handleAssignGuide s ins ntf now =
     (if \<not> truthy (selectedTourist s) \<or> \<not> truthy (selectedGuide s) \<or>
         \<not> truthy (admin_state.tourName s) \<or> \<not> truthy (admin_state.startDate s) \<or>
         \<not> truthy (admin_state.endDate s)
      then (s, [Toast ''Error'' ''Please fill in all fields'' Destructive])
      else
        let insert_call = Insert ''tour_assignments''
              [(''tourist_id'', JString (selectedTourist s)),
               (''guide_id'', JString (selectedGuide s)),
               (''tour_name'', JString (admin_state.tourName s)),
               (''start_date'', JString (admin_state.startDate s)),
               (''end_date'', JString (admin_state.endDate s)),
               (''status'', JString ''active'')]
        in case ins of
             Inl error \<Rightarrow>
               (s, [insert_call,
                    ConsoleError ''Error creating assignment:'',
                    Toast ''Error'' (js_or (message error) ''Failed to create assignment'')
                      Destructive])
           | Inr data \<Rightarrow>
               let invoke_call = Invoke ''send-assignment-notification''
                     [(''touristId'', JString (selectedTourist s)),
                      (''guideId'', JString (selectedGuide s)),
                      (''tourName'', JString (admin_state.tourName s)),
                      (''startDate'', JString (admin_state.startDate s)),
                      (''endDate'', JString (admin_state.endDate s))];
                   caught = (case ntf of
                               InvokeThrows \<Rightarrow> [ConsoleError ''Error sending notification emails:'']
                             | _ \<Rightarrow> []);
                   newAssignment =
                     \<lparr>Assignment.id = tour_assignment_row.id data,
                      touristId = selectedTourist s,
                      guideId = selectedGuide s,
                      Assignment.tourName = admin_state.tourName s,
                      Assignment.startDate = admin_state.startDate s,
                      Assignment.endDate = admin_state.endDate s,
                      Assignment.status = ''active'',
                      createdAt = toISOString now\<rparr>
               in (s\<lparr>assignments := assignments s @ [newAssignment],
                      selectedTourist := '''',
                      selectedGuide := '''',
                      admin_state.tourName := '''',
                      admin_state.startDate := '''',
                      admin_state.endDate := ''''\<rparr>,
                   [insert_call, invoke_call] @ caught @
                   [Toast ''Assignment Created''
                      ''Tour guide assigned successfully and notifications sent!'' Default]))"

section \<open>Reassigning a guide\<close>

text \<open>
  \<open>handleReassignGuide\<close>. The store's answers are \<open>upd\<close> (the error of the update, if any)
  and \<open>ins\<close> (the answer to the insert); only the one whose call is issued is read.
  The clock is read three times: \<open>now1\<close> for \<open>start_date\<close>, \<open>now2\<close> for \<open>end_date\<close>
  and, after the insert has returned, \<open>now3\<close> for \<open>createdAt\<close>. As for
  \<open>handleAssignGuide\<close>, no other event runs in between, so the list that is patched or
  extended is the list in which the assignment was looked up. The fetchers started at
  the end replace the list later, when their reads return.
\<close>

definition handleReassignGuide ::
  "admin_state \<Rightarrow> store_error option \<Rightarrow> store_error + tour_assignment_row
     \<Rightarrow> int \<Rightarrow> int \<Rightarrow> int \<Rightarrow> admin_state \<times> effect list" where
  "handleReassignGuide s upd ins now1 now2 now3 =
     (if \<not> truthy (reassignmentNewGuideId s) \<or> \<not> truthy (reassignmentTouristId s)
      then (s, [Toast ''Error'' ''Please select a new guide'' Destructive])
      else
        let failed = (\<lambda>call error.
              (s, [call,
                   ConsoleError ''Error reassigning guide:'',
                   Toast ''Error'' (js_or (message error) ''Failed to assign guide'') Destructive]));
            finish = (\<lambda>call list.
              (s\<lparr>assignments := list,
                 reassignmentDialogOpen := False,
                 reassignmentTouristId := '''',
                 reassignmentNewGuideId := ''''\<rparr>,
               [call,
                Toast ''Success'' ''Tour guide assigned successfully!'' Default,
                Refetch FetchAssignments,
                Refetch FetchGuideRequests]))
        in case find (\<lambda>a. touristId a = reassignmentTouristId s) (assignments s) of
             Some existingAssignment \<Rightarrow>
               let update_call = Update ''tour_assignments''
                     [(''guide_id'', JString (reassignmentNewGuideId s))]
                     ''id'' (Assignment.id existingAssignment)
               in (case upd of
                     Some error \<Rightarrow> failed update_call error
                   | None \<Rightarrow>
                       finish update_call
                         (map (\<lambda>assignment.
                                 if Assignment.id assignment = Assignment.id existingAssignment
                                 then assignment\<lparr>guideId := reassignmentNewGuideId s\<rparr>
                                 else assignment)
                              (assignments s)))
           | None \<Rightarrow>
               let insert_call = Insert ''tour_assignments''
                     [(''tourist_id'', JString (reassignmentTouristId s)),
                      (''guide_id'', JString (reassignmentNewGuideId s)),
                      (''tour_name'', JString ''AlUla Heritage Tour''),
                      (''start_date'', JString (iso_date_part now1)),
                      (''end_date'', JString (iso_date_part (now2 + 7 * 24 * 60 * 60 * 1000))),
                      (''status'', JString ''active'')]
               in (case ins of
                     Inl error \<Rightarrow> failed insert_call error
                   | Inr data \<Rightarrow>
                       let newAssignment =
                             \<lparr>Assignment.id = tour_assignment_row.id data,
                              touristId = reassignmentTouristId s,
                              guideId = reassignmentNewGuideId s,
                              Assignment.tourName = ''AlUla Heritage Tour'',
                              Assignment.startDate = start_date data,
                              Assignment.endDate = end_date data,
                              Assignment.status = ''active'',
                              createdAt = toISOString now3\<rparr>
                       in finish insert_call (assignments s @ [newAssignment])))"

section \<open>Creating a guide\<close>

text \<open>
  \<open>handleCreateGuide\<close>, run against the error of the insert, if any. The specialization
  list is computed from the form field as in the source:
  \<open>s ? s.split(',').map(s => s.trim()).filter(s => s) : []\<close>.
\<close>

definition specializations_of :: "string \<Rightarrow> string list" where
  "specializations_of s =
     (if truthy s then filter truthy (map trim (js_split CHR '','' s)) else [])"

definition handleCreateGuide ::
  "admin_state \<Rightarrow> store_error option \<Rightarrow> admin_state \<times> effect list" where
  "handleCreateGuide s ins =
     (if \<not> truthy (newGuideName s) \<or> \<not> truthy (newGuideEmail s) \<or>
         \<not> truthy (newGuidePhone s) \<or> \<not> truthy (newGuideId s) \<or>
         \<not> truthy (newGuidePassword s)
      then (s, [Toast ''Error'' ''Please fill in all required fields'' Destructive])
      else
        let specializations = specializations_of (newGuideSpecializations s);
            insert_call = Insert ''guides''
              [(''guide_id'', JString (newGuideId s)),
               (''password'', JString (newGuidePassword s)),
               (''name'', JString (newGuideName s)),
               (''email'', JString (newGuideEmail s)),
               (''phone'', JString (newGuidePhone s)),
               (''specializations'', JArray specializations),
               (''status'', JString (newGuideStatus s)),
               (''rating'', JNumber 0)]
        in case ins of
             Some error \<Rightarrow>
               (s\<lparr>isCreatingGuide := False\<rparr>,
                [insert_call,
                 ConsoleError ''Error creating guide:'',
                 Toast ''Error'' (js_or (message error) ''Failed to create guide'') Destructive])
           | None \<Rightarrow>
               (s\<lparr>newGuideName := '''',
                  newGuideEmail := '''',
                  newGuidePhone := '''',
                  newGuideId := '''',
                  newGuidePassword := '''',
                  newGuideSpecializations := '''',
                  newGuideStatus := ''available'',
                  isCreatingGuide := False\<rparr>,
                [insert_call,
                 Toast ''Success'' (''Guide created successfully! Guide ID: '' @ newGuideId s)
                   Default,
                 Refetch FetchGuides]))"

section \<open>Answering a guide request\<close>

datatype response_status = Approved | Rejected

fun status_text :: "response_status \<Rightarrow> string" where
  "status_text Approved = ''approved''"
| "status_text Rejected = ''rejected''"

text \<open>
  The object \<open>updateData\<close> that \<open>handleRequestResponse\<close> builds: \<open>status\<close> and
  \<open>admin_response\<close> always, \<open>assigned_guide_id\<close> only under
  \<open>status === 'approved' && guideId\<close>.
\<close>

definition updateData ::
  "response_status \<Rightarrow> string option \<Rightarrow> string option \<Rightarrow> payload" where
  "updateData status' guideId' response =
     [(''status'', JString (status_text status')), (''admin_response'', of_optional response)] @
     (case guideId' of
        Some g \<Rightarrow> if status' = Approved \<and> truthy g then [(''assigned_guide_id'', JString g)] else []
      | None \<Rightarrow> [])"

definition handleRequestResponse ::
  "string \<Rightarrow> response_status \<Rightarrow> string option \<Rightarrow> string option \<Rightarrow> store_error option
     \<Rightarrow> effect list" where
  "handleRequestResponse requestId status' guideId' response upd =
     (let update_call = Update ''guide_requests'' (updateData status' guideId' response)
                          ''id'' requestId
      in case upd of
           Some error \<Rightarrow>
             [update_call,
              ConsoleError ''Error updating request:'',
              Toast ''Error'' ''Failed to update request'' Destructive]
         | None \<Rightarrow>
             [update_call,
              Toast ''Success'' (''Request '' @ status_text status' @ '' successfully!'') Default,
              Refetch FetchGuideRequests,
              Refetch FetchGuides])"

text \<open>
  A row of \<open>guide_requests\<close> in the store, and what the store's
  \<open>update(changes).eq('id', v)\<close> does to the table: in every row whose \<open>id\<close> is \<open>v\<close>
  the columns named in \<open>changes\<close> are written and every other column keeps its value.
  A key whose value is \<open>undefined\<close> is dropped when the request is serialised, so that
  column is not written either.
\<close>

record guide_request_row =
  id :: string
  tourist_id :: string
  request_message :: string
  status :: string
  assigned_guide_id :: "string option"
  admin_response :: "string option"

fun write_column :: "guide_request_row \<Rightarrow> string \<times> json \<Rightarrow> guide_request_row" where
  "write_column r (k, JString v) =
     (if k = ''status'' then r\<lparr>guide_request_row.status := v\<rparr>
      else if k = ''admin_response'' then r\<lparr>admin_response := Some v\<rparr>
      else if k = ''assigned_guide_id'' then r\<lparr>assigned_guide_id := Some v\<rparr>
      else r)"
| "write_column r (k, _) = r"

definition store_update ::
  "guide_request_row list \<Rightarrow> payload \<Rightarrow> string \<Rightarrow> guide_request_row list" where
  "store_update table changes v =
     map (\<lambda>r. if guide_request_row.id r = v then foldl write_column r changes else r) table"

text \<open>The table after every update call among the effects has been carried out.\<close>

fun run_updates :: "guide_request_row list \<Rightarrow> effect list \<Rightarrow> guide_request_row list" where
  "run_updates table [] = table"
| "run_updates table (Update t changes c v # es) =
     run_updates (if t = ''guide_requests'' \<and> c = ''id'' then store_update table changes v
                  else table) es"
| "run_updates table (_ # es) = run_updates table es"

section \<open>Fetching assignments and tourists\<close>



text \<open>
  The rows that \<open>fetchTourists\<close> reads. A profile has nullable text columns. A row of the
  second read carries \<open>tourist_id, status, guide_id\<close> and the joined guide, which is
  missing when the reference does not resolve and whose name may be null.
\<close>

record profile_row =
  id :: string
  full_name :: "string option"
  contact_info :: "string option"
  phone_number :: "string option"
  nationality :: "string option"

datatype joined_guide = JoinedGuide (guide_name: "string option")

record current_assignment_row =
  tourist_id :: string
  status :: string
  guide_id :: string
  guides :: "joined_guide option"

text \<open>
  The filter \<open>.in('status', values)\<close> of the second read, on the rows of the table in the
  order in which the store returns them (the read asks for no order).
\<close>

definition in_status ::
  "string list \<Rightarrow> current_assignment_row list \<Rightarrow> current_assignment_row list" where
  "in_status values table = filter (\<lambda>r. current_assignment_row.status r \<in> set values) table"

record assignment_info =
  status :: string
  assignedGuide :: string

text \<open>\<open>assignment.guides?.name || 'Unknown Guide'\<close>\<close>

definition guide_name_or_unknown :: "current_assignment_row \<Rightarrow> string" where
  "guide_name_or_unknown assignment =
     js_or (case guides assignment of None \<Rightarrow> None | Some g \<Rightarrow> guide_name g) ''Unknown Guide''"

text \<open>The \<open>reduce\<close> that builds the dictionary: each row stores its entry under its tourist.\<close>

definition assignmentMap_of ::
  "current_assignment_row list \<Rightarrow> (string \<rightharpoonup> assignment_info)" where
  "assignmentMap_of assignmentsData =
     foldl (\<lambda>acc assignment.
              acc(current_assignment_row.tourist_id assignment \<mapsto>
                    \<lparr>assignment_info.status = current_assignment_row.status assignment,
                     assignment_info.assignedGuide = guide_name_or_unknown assignment\<rparr>))
           Map.empty assignmentsData"

definition formatTourist :: "(string \<rightharpoonup> assignment_info) \<Rightarrow> profile_row \<Rightarrow> Tourist" where
  "formatTourist assignmentMap profile =
     (let assignmentStatus = map_option assignment_info.status (assignmentMap (profile_row.id profile))
      in \<lparr>Tourist.id = profile_row.id profile,
          name = js_or (full_name profile) ''Unnamed Tourist'',
          email = js_or (contact_info profile) '''',
          phone = js_or (phone_number profile) (js_or (contact_info profile) ''''),
          Tourist.nationality = js_or (profile_row.nationality profile) ''Not specified'',
          Tourist.status =
            (if assignmentStatus = Some ''active'' then TouristAssigned
             else if assignmentStatus = Some ''pending'' then TouristPending
             else TouristActive),
          Tourist.assignedGuide =
            js_or (map_option assignment_info.assignedGuide (assignmentMap (profile_row.id profile)))
              ''''\<rparr>)"

text \<open>
  \<open>fetchTourists\<close>, run against the store's answers to its two reads. An error of the
  first read aborts the fetch; an error of the second is only a warning and the rows are
  taken to be none. (\<open>console.log\<close> and \<open>console.warn\<close> output is left out.)
\<close>

definition formattedTourists :: "profile_row list \<Rightarrow> current_assignment_row list \<Rightarrow> Tourist list" where
  "formattedTourists profilesData assignmentsData =
     map (formatTourist (assignmentMap_of assignmentsData)) profilesData"

definition fetchTourists ::
  "admin_state \<Rightarrow> store_error + profile_row list \<Rightarrow> store_error + current_assignment_row list
     \<Rightarrow> admin_state \<times> effect list" where
  "fetchTourists s profiles current =
     (case profiles of
        Inl profilesError \<Rightarrow>
          (s, [ConsoleError ''Error fetching profiles:'',
               ConsoleError ''Error fetching tourists:'',
               Toast ''Error'' ''Failed to load tourists. Please try again.'' Destructive])
      | Inr profilesData \<Rightarrow>
          (s\<lparr>tourists := formattedTourists profilesData
                            (case current of Inl assignmentsError \<Rightarrow> [] | Inr assignmentsData \<Rightarrow> assignmentsData)\<rparr>,
           []))"

section \<open>Admin login\<close>

definition handleLogin :: "admin_state \<Rightarrow> admin_state \<times> effect list" where
  "handleLogin s =
     (if adminId s = ''admin'' \<and> admin_state.password s = ''admin123''
      then (s\<lparr>isLoggedIn := True\<rparr>,
            [Toast ''Login Successful'' ''Welcome to the Admin Dashboard!'' Default])
      else (s,
            [Toast ''Login Failed'' ''Invalid credentials. Try admin/admin123'' Destructive]))"

section \<open>The tourist sign-up form\<close>

datatype login_method = Phone | Email

text \<open>The form state; the fields \<open>identifier\<close> and \<open>method\<close> are written \<open>identifier'\<close> and \<open>method'\<close>.\<close>

record LoginState =
  identifier' :: string
  password :: string
  confirmPassword :: string
  fullName :: string
  phoneNumber :: string
  method' :: login_method
  isSignUp :: bool
  showPassword :: bool
  loading :: bool

text \<open>
  \<open>/^[^\s@]+@[^\s@]+\.[^\s@]+$/.test(s)\<close>. The first group cannot cross an \<open>@\<close>, so it is
  the text before the first \<open>@\<close>; what follows that \<open>@\<close> has no \<open>@\<close> and no white space
  and contains a dot that is neither its first nor its last character.
\<close>

definition emailRegex_test :: "string \<Rightarrow> bool" where
  "emailRegex_test s =
     (let local = takeWhile (\<lambda>c. c \<noteq> CHR ''@'') s;
          rest = dropWhile (\<lambda>c. c \<noteq> CHR ''@'') s
      in local \<noteq> [] \<and> \<not> list_ex isWhiteSpace local \<and> rest \<noteq> [] \<and>
         \<not> list_ex (\<lambda>c. isWhiteSpace c \<or> c = CHR ''@'') (tl rest) \<and>
         CHR ''.'' \<in> set (butlast (tl (tl rest))))"

text \<open>\<open>s.replace(/\D/g, '')\<close>: the decimal digits of \<open>s\<close>.\<close>

definition digits_of :: "string \<Rightarrow> string" where
  "digits_of s = filter (\<lambda>c. c \<in> set ''0123456789'') s"

text \<open>
  \<open>validateInput\<close>: whether the form may be submitted, and the toast shown when it may
  not. \<open>t\<close> is the translation function of the language context.
\<close>

definition validateInput :: "(string \<Rightarrow> string) \<Rightarrow> LoginState \<Rightarrow> bool \<times> effect list" where
  "validateInput t s =
     (if \<not> truthy (trim (identifier' s)) \<or> \<not> truthy (trim (LoginState.password s))
      then (False, [Toast (t ''missingInfo'') (t ''fillAllFields'') Destructive])
      else if isSignUp s \<and> \<not> truthy (trim (fullName s))
      then (False, [Toast (t ''missingInfo'') (t ''enterFullNameMsg'') Destructive])
      else if isSignUp s \<and> method' s = Phone \<and> \<not> truthy (trim (identifier' s))
      then (False, [Toast (t ''missingInfo'') ''Please enter your phone number.'' Destructive])
      else if method' s = Email \<and> \<not> emailRegex_test (identifier' s)
      then (False, [Toast (t ''invalidEmail'') (t ''validEmailMsg'') Destructive])
      else if method' s \<noteq> Email \<and> length (digits_of (identifier' s)) < 9
      then (False, [Toast (t ''invalidPhone'') (t ''validPhoneMsg'') Destructive])
      else if isSignUp s \<and> LoginState.password s \<noteq> confirmPassword s
      then (False, [Toast (t ''passwordsNoMatch'') (t ''passwordsMatchMsg'') Destructive])
      else if length (LoginState.password s) < 6
      then (False, [Toast (t ''passwordTooShort'') (t ''passwordLengthMsg'') Destructive])
      else (True, []))"

text \<open>
  What \<open>auth.signUp\<close> resolves to when it reports no error: a user and a session, either
  of which may be null (no session is returned while the address awaits confirmation).
\<close>

record auth_user =
  id :: string

record signup_data =
  user :: "auth_user option"
  session :: "string option"

text \<open>
  How the profile upsert can end: without an error, with an error in its result, or by
  throwing.
\<close>

datatype upsert_result = UpsertOk | UpsertError store_error | UpsertThrows

text \<open>The object \<open>profileData\<close> built from the new user and the form.\<close>

definition profileData :: "auth_user \<Rightarrow> LoginState \<Rightarrow> payload" where
  "profileData u s =
     [(''id'', JString (auth_user.id u)),
      (''user_type'', JString ''tourist''),
      (''full_name'', JString (trim (fullName s))),
      (''phone_number'', JString (trim (phoneNumber s))),
      (''contact_info'', JString (if method' s = Phone then identifier' s else phoneNumber s))]"

text \<open>
  \<open>handleSignUp\<close>, run against the answers of \<open>auth.signUp\<close> (\<open>signup\<close>) and of the profile
  upsert (\<open>ups\<close>); \<open>origin\<close> is \<open>window.location.origin\<close>. The options of the sign-up call
  are listed flat: \<open>emailRedirectTo\<close>, then the fields of \<open>data\<close>.
\<close>

definition handleSignUp ::
  "(string \<Rightarrow> string) \<Rightarrow> string \<Rightarrow> LoginState \<Rightarrow> store_error + signup_data \<Rightarrow> upsert_result
     \<Rightarrow> LoginState \<times> effect list" where
  "handleSignUp t origin s signup ups =
     (if \<not> fst (validateInput t s) then (s, snd (validateInput t s))
      else
        let signUp_call = AuthSignUp (identifier' s) (LoginState.password s)
              [(''emailRedirectTo'', JString (origin @ ''/'')),
               (''user_type'', JString ''tourist''),
               (''full_name'', JString (trim (fullName s))),
               (''phone_number'', JString (trim (phoneNumber s)))]
        in (case signup of
              Inl error \<Rightarrow>
                (s\<lparr>loading := False\<rparr>,
                 [signUp_call,
                  ConsoleError ''Error signing up:'',
                  Toast (t ''signUpFailed'') (js_or (message error) (t ''unableToCreate''))
                    Destructive])
            | Inr data \<Rightarrow>
                (case (user data, session data) of
                   (Some u, Some sess) \<Rightarrow>
                     (s\<lparr>loading := False\<rparr>,
                      [signUp_call, Upsert ''profiles'' (profileData u s)] @
                      (case ups of
                         UpsertOk \<Rightarrow> []
                       | UpsertError profileError \<Rightarrow> [ConsoleError ''Error creating profile:'']
                       | UpsertThrows \<Rightarrow> [ConsoleError ''Profile creation failed:'']) @
                      [Toast (t ''accountCreated'') (t ''welcomeTourist'') Default,
                       OnLoginSuccess (auth_user.id u) sess])
                 | _ \<Rightarrow>
                     (s\<lparr>isSignUp := False, loading := False\<rparr>,
                      [signUp_call,
                       Toast (t ''checkEmail'') (t ''confirmEmailMsg'') Default]))))"

section \<open>The specialization list, as specified\<close>

text \<open>
  The specification of guide creation reads: the specialization set is obtained by
  splitting the comma-delimited string, trimming each entry and discarding the empty
  entries. \<open>spec_split\<close> cuts a string at every separator by repeatedly taking the text
  before the next separator; \<open>spec_specializations\<close> follows the sentence. \<open>js_join\<close> is
  \<open>Array.prototype.join\<close> for a one-character separator, the inverse of splitting.
\<close>

function spec_split :: "char \<Rightarrow> string \<Rightarrow> string list" where
  "spec_split c s =
     (case dropWhile (\<lambda>x. x \<noteq> c) s of
        [] \<Rightarrow> [takeWhile (\<lambda>x. x \<noteq> c) s]
      | _ # rest \<Rightarrow> takeWhile (\<lambda>x. x \<noteq> c) s # spec_split c rest)"
  by pat_completeness auto
termination
proof (relation "measure (\<lambda>(c, s). length s)")
  show "wf (measure (\<lambda>(c, s). length s))" by simp
next
  fix c :: char and s :: string and x rest
  assume "dropWhile (\<lambda>x. x \<noteq> c) s = x # rest"
  then have "length (x # rest) \<le> length s"
    using length_dropWhile_le [of "\<lambda>x. x \<noteq> c" s] by simp
  then show "((c, rest), (c, s)) \<in> measure (\<lambda>(c, s). length s)" by simp
qed

declare spec_split.simps [simp del]

definition spec_specializations :: "string \<Rightarrow> string list" where
  "spec_specializations s = filter (\<lambda>e. e \<noteq> '''') (map trim (spec_split CHR '','' s))"

fun js_join :: "char \<Rightarrow> string list \<Rightarrow> string" where
  "js_join c [] = []"
| "js_join c [p] = p"
| "js_join c (p # q # ps) = p @ c # js_join c (q # ps)"

text \<open>The entry that the \<open>reduce\<close> of \<open>fetchTourists\<close> stores for a row.\<close>

definition info_of :: "current_assignment_row \<Rightarrow> assignment_info" where
  "info_of assignment =
     \<lparr>assignment_info.status = current_assignment_row.status assignment,
      assignment_info.assignedGuide = guide_name_or_unknown assignment\<rparr>"

section \<open>Example inputs\<close>

text \<open>A dashboard holding two assignments, with the reassignment dialog open.\<close>

definition walk_t1 :: Assignment where
  "walk_t1 =
     \<lparr>Assignment.id = ''a1'', touristId = ''t1'', guideId = ''g1'',
      Assignment.tourName = ''Old Town Walk'', Assignment.startDate = ''2025-11-03'',
      Assignment.endDate = ''2025-11-05'', Assignment.status = ''active'',
      createdAt = ''2025-11-01T08:00:00.000Z''\<rparr>"

definition hike_t2 :: Assignment where
  "hike_t2 =
     \<lparr>Assignment.id = ''a2'', touristId = ''t2'', guideId = ''g2'',
      Assignment.tourName = ''Canyon Hike'', Assignment.startDate = ''2025-11-04'',
      Assignment.endDate = ''2025-11-06'', Assignment.status = ''pending'',
      createdAt = ''2025-11-02T09:30:00.000Z''\<rparr>"

definition reassigning :: "string \<Rightarrow> admin_state" where
  "reassigning t =
     initial_state\<lparr>isLoggedIn := True, assignments := [walk_t1, hike_t2],
       reassignmentDialogOpen := True, reassignmentNewGuideId := ''g3'',
       reassignmentTouristId := t\<rparr>"

text \<open>The row the store returns for the assignment created for tourist \<open>t3\<close>.\<close>

definition inserted_t3 :: tour_assignment_row where
  "inserted_t3 =
     \<lparr>tour_assignment_row.id = ''a3'', tour_assignment_row.tourist_id = ''t3'',
      guide_id = ''g3'', tour_name = ''AlUla Heritage Tour'', start_date = ''2025-11-03'',
      end_date = ''2025-11-10'', tour_assignment_row.status = ''active'',
      created_at = ''2025-11-03T12:04:05.200Z''\<rparr>"

text \<open>The assignment form, filled in.\<close>

definition filled_form :: admin_state where
  "filled_form =
     initial_state\<lparr>isLoggedIn := True, assignments := [walk_t1],
       selectedTourist := ''t3'', selectedGuide := ''g3'',
       admin_state.tourName := ''Tombs of Hegra'', admin_state.startDate := ''2025-11-03'',
       admin_state.endDate := ''2025-11-10''\<rparr>"

text \<open>The guide form, filled in.\<close>

definition guide_form :: admin_state where
  "guide_form =
     initial_state\<lparr>isLoggedIn := True, newGuideName := ''Salem'',
       newGuideEmail := ''salem@example.com'', newGuidePhone := ''+966511111111'',
       newGuideId := ''G-7'', newGuidePassword := ''pw-7'',
       newGuideSpecializations := ''Desert, Night Tour, ''\<rparr>"

text \<open>A pending guide request whose assigned-guide reference is already set.\<close>

definition request_with_guide :: guide_request_row where
  "request_with_guide =
     \<lparr>guide_request_row.id = ''r1'', guide_request_row.tourist_id = ''t1'',
      request_message = ''A guide for two days, please'',
      guide_request_row.status = ''pending'', assigned_guide_id = Some ''g1'',
      admin_response = None\<rparr>"

text \<open>
  A tourist with two current assignments, as the two fetchers see them: the rows of
  \<open>fetchTourists\<close> with the joined guide names, and the full rows of \<open>fetchAssignments\<close>.
\<close>

definition aisha :: profile_row where
  "aisha = \<lparr>profile_row.id = ''t1'', full_name = Some ''Aisha'',
             contact_info = Some ''aisha@example.com'', phone_number = None,
             profile_row.nationality = Some ''Saudi''\<rparr>"

definition with_ali :: current_assignment_row where
  "with_ali = \<lparr>current_assignment_row.tourist_id = ''t1'',
                current_assignment_row.status = ''active'',
                current_assignment_row.guide_id = ''g1'',
                guides = Some (JoinedGuide (Some ''Ali''))\<rparr>"

definition with_badr :: current_assignment_row where
  "with_badr = \<lparr>current_assignment_row.tourist_id = ''t1'',
                 current_assignment_row.status = ''pending'',
                 current_assignment_row.guide_id = ''g2'',
                 guides = Some (JoinedGuide (Some ''Badr''))\<rparr>"


text \<open>A sign-up form that passes validation, and the answer of a successful sign-up.\<close>

definition signup_form :: LoginState where
  "signup_form =
     \<lparr>identifier' = ''aisha@example.com'', LoginState.password = ''secret1'',
      confirmPassword = ''secret1'', fullName = '' Aisha Noor '',
      phoneNumber = ''+966500000000 '', method' = Email, isSignUp = True,
      showPassword = False, loading = False\<rparr>"

definition new_user :: signup_data where
  "new_user = \<lparr>user = Some \<lparr>auth_user.id = ''u1''\<rparr>, session = Some ''session-1''\<rparr>"

text \<open>
  The row the store returns for an assignment created around UTC midnight of
  29 February 2024.
\<close>

definition inserted_leap :: tour_assignment_row where
  "inserted_leap =
     \<lparr>tour_assignment_row.id = ''a5'', tour_assignment_row.tourist_id = ''t3'',
      guide_id = ''g3'', tour_name = ''AlUla Heritage Tour'', start_date = ''2024-02-28'',
      end_date = ''2024-03-07'', tour_assignment_row.status = ''active'',
      created_at = ''2024-02-29T00:00:00.150Z''\<rparr>"


section \<open>Properties\<close>

subsection \<open>Splitting and dates\<close>

lemma js_split_not_Nil: "js_split c s \<noteq> []"
  by (induction s) (auto split: list.splits)

lemma hd_js_split_append: "c \<notin> set xs \<Longrightarrow> hd (js_split c (xs @ c # ys)) = xs"
  by (induction xs) (auto split: list.splits simp add: js_split_not_Nil)

lemma digit_char_in: "digit_char n \<in> set ''0123456789''"
proof -
  have "nat (n mod 10) < 10" by simp
  then have "nat (n mod 10) < length ''0123456789''" by simp
  then show ?thesis unfolding digit_char_def by (rule nth_mem)
qed

lemma digit_char_not_T: "CHR ''T'' \<noteq> digit_char n"
proof
  assume "CHR ''T'' = digit_char n"
  with digit_char_in [of n] have "CHR ''T'' \<in> set ''0123456789''" by simp
  then show False by simp
qed

lemma pad2_no_T: "CHR ''T'' \<notin> set (pad2 n)"
  by (simp add: pad2_def digit_char_not_T)

lemma pad4_no_T: "CHR ''T'' \<notin> set (pad4 n)"
  by (simp add: pad4_def digit_char_not_T)

lemma utc_date_no_T: "CHR ''T'' \<notin> set (utc_date d)"
  by (cases "civil_from_days d") (simp add: utc_date_def pad2_no_T pad4_no_T)

text \<open>The date part of an ISO timestamp is the date of its UTC day.\<close>

lemma iso_date_part_eq: "iso_date_part ms = utc_date (ms div msPerDay)"
  unfolding iso_date_part_def toISOString_def
  using hd_js_split_append [OF utc_date_no_T] by simp

lemma seven_days_later: "(ms + 604800000) div msPerDay = ms div msPerDay + 7"
  by (simp add: msPerDay_def)

lemma example_clock:
  "utc_date (1762171445123 div msPerDay) = ''2025-11-03''"
  "utc_date (1762171445123 div msPerDay + 7) = ''2025-11-10''"
  "toISOString 1762171445321 = ''2025-11-03T12:04:05.321Z''"
  by code_simp+

lemma midnight_clock:
  "iso_date_part 1709164799999 = ''2024-02-28''"
  "iso_date_part 1709769600000 = ''2024-03-07''"
  "utc_date (1709164799999 div msPerDay + 7) = ''2024-03-06''"
  "toISOString 1709164800200 = ''2024-02-29T00:00:00.200Z''"
  by code_simp+

lemma example_clock_next:
  "(1762171445123::int) div msPerDay = 1762171445999 div msPerDay"
  by (simp add: msPerDay_def)

subsection \<open>The assignment reconciler\<close>

text \<open>
  Claim C1. For every tourist who has an assignment in the local list, calling
  \<open>handleReassignGuide\<close> with a new guide finds the first such assignment \<open>e\<close> and issues,
  as its only write to the store, an update of \<open>tour_assignments\<close> that sets only
  \<open>guide_id\<close> on the row whose id is that of \<open>e\<close>. When the update succeeds the local
  list is patched in place: the copy of \<open>e\<close> keeps its id, tour name, dates and status and
  gets the new guide id (it is the old record with only \<open>guideId\<close> replaced), and every
  assignment with another id is unchanged. When the update fails nothing is patched.
\<close>

theorem handleReassignGuide_existing:
  assumes guide: "reassignmentNewGuideId s \<noteq> ''''"
    and tourist: "reassignmentTouristId s \<noteq> ''''"
    and existing: "\<exists>a \<in> set (assignments s). touristId a = reassignmentTouristId s"
  shows "\<exists>e. find (\<lambda>a. touristId a = reassignmentTouristId s) (assignments s) = Some e \<and>
           e \<in> set (assignments s) \<and> touristId e = reassignmentTouristId s \<and>
           filter is_store_write (snd (handleReassignGuide s upd ins now1 now2 now3)) =
             [Update ''tour_assignments'' [(''guide_id'', JString (reassignmentNewGuideId s))]
                ''id'' (Assignment.id e)] \<and>
           (upd = None \<longrightarrow>
              length (assignments (fst (handleReassignGuide s upd ins now1 now2 now3))) =
                length (assignments s) \<and>
              (\<forall>i < length (assignments s).
                 assignments (fst (handleReassignGuide s upd ins now1 now2 now3)) ! i =
                   (if Assignment.id (assignments s ! i) = Assignment.id e
                    then (assignments s ! i)\<lparr>guideId := reassignmentNewGuideId s\<rparr>
                    else assignments s ! i))) \<and>
           (upd \<noteq> None \<longrightarrow> fst (handleReassignGuide s upd ins now1 now2 now3) = s)"
proof -
  from existing obtain e
    where e: "find (\<lambda>a. touristId a = reassignmentTouristId s) (assignments s) = Some e"
    by (cases "find (\<lambda>a. touristId a = reassignmentTouristId s) (assignments s)")
       (auto simp add: find_None_iff)
  then have mem: "e \<in> set (assignments s)" and t: "touristId e = reassignmentTouristId s"
    by (auto simp add: find_Some_iff)
  have calls: "filter is_store_write (snd (handleReassignGuide s upd ins now1 now2 now3)) =
      [Update ''tour_assignments'' [(''guide_id'', JString (reassignmentNewGuideId s))]
         ''id'' (Assignment.id e)]"
    using guide tourist e
    by (cases upd) (simp_all add: handleReassignGuide_def truthy_def Let_def)
  have ok: "upd = None \<Longrightarrow>
      assignments (fst (handleReassignGuide s upd ins now1 now2 now3)) =
        map (\<lambda>a. if Assignment.id a = Assignment.id e
                 then a\<lparr>guideId := reassignmentNewGuideId s\<rparr> else a) (assignments s)"
    using guide tourist e by (simp add: handleReassignGuide_def truthy_def Let_def)
  have err: "upd \<noteq> None \<Longrightarrow> fst (handleReassignGuide s upd ins now1 now2 now3) = s"
    using guide tourist e
    by (cases upd) (simp_all add: handleReassignGuide_def truthy_def Let_def)
  from e mem t calls ok err show ?thesis by simp
qed

theorem handleReassignGuide_existing_witness:
  "reassignmentNewGuideId (reassigning ''t1'') \<noteq> '''' \<and>
   reassignmentTouristId (reassigning ''t1'') \<noteq> '''' \<and>
   (\<exists>a \<in> set (assignments (reassigning ''t1'')).
      touristId a = reassignmentTouristId (reassigning ''t1'')) \<and>
   filter is_store_write
     (snd (handleReassignGuide (reassigning ''t1'') None (Inl (StoreError None)) 0 0 0)) =
     [Update ''tour_assignments'' [(''guide_id'', JString ''g3'')] ''id'' ''a1''] \<and>
   assignments (fst (handleReassignGuide (reassigning ''t1'') None (Inl (StoreError None)) 0 0 0)) =
     [walk_t1\<lparr>guideId := ''g3''\<rparr>, hike_t2]"
proof -
  have g: "reassignmentNewGuideId (reassigning ''t1'') \<noteq> ''''"
    and t: "reassignmentTouristId (reassigning ''t1'') \<noteq> ''''"
    and a: "\<exists>a \<in> set (assignments (reassigning ''t1'')).
              touristId a = reassignmentTouristId (reassigning ''t1'')"
    by (simp_all add: reassigning_def initial_state_def walk_t1_def)
  from handleReassignGuide_existing [OF g t a, of None "Inl (StoreError None)" 0 0 0]
  obtain e where
    e: "find (\<lambda>a. touristId a = reassignmentTouristId (reassigning ''t1''))
          (assignments (reassigning ''t1'')) = Some e"
    and w: "filter is_store_write
        (snd (handleReassignGuide (reassigning ''t1'') None (Inl (StoreError None)) 0 0 0)) =
        [Update ''tour_assignments''
           [(''guide_id'', JString (reassignmentNewGuideId (reassigning ''t1'')))]
           ''id'' (Assignment.id e)]"
    and len: "length (assignments
        (fst (handleReassignGuide (reassigning ''t1'') None (Inl (StoreError None)) 0 0 0))) =
        length (assignments (reassigning ''t1''))"
    and nth: "\<forall>i < length (assignments (reassigning ''t1'')).
        assignments
          (fst (handleReassignGuide (reassigning ''t1'') None (Inl (StoreError None)) 0 0 0)) ! i =
          (if Assignment.id (assignments (reassigning ''t1'') ! i) = Assignment.id e
           then (assignments (reassigning ''t1'') ! i)
                  \<lparr>guideId := reassignmentNewGuideId (reassigning ''t1'')\<rparr>
           else assignments (reassigning ''t1'') ! i)"
    by blast
  from e have e1: "e = walk_t1"
    by (simp add: reassigning_def initial_state_def walk_t1_def)
  have l2: "length (assignments (reassigning ''t1'')) = 2"
    by (simp add: reassigning_def initial_state_def)
  from nth l2 have n0: "assignments
          (fst (handleReassignGuide (reassigning ''t1'') None (Inl (StoreError None)) 0 0 0)) ! 0 =
          walk_t1\<lparr>guideId := ''g3''\<rparr>"
    and n1: "assignments
          (fst (handleReassignGuide (reassigning ''t1'') None (Inl (StoreError None)) 0 0 0)) ! 1 =
          hike_t2"
    by (simp_all add: e1 reassigning_def initial_state_def walk_t1_def hike_t2_def)
  from len l2 n0 n1 have "assignments
      (fst (handleReassignGuide (reassigning ''t1'') None (Inl (StoreError None)) 0 0 0)) =
      [walk_t1\<lparr>guideId := ''g3''\<rparr>, hike_t2]"
    by (simp add: list_eq_iff_nth_eq less_Suc_eq numeral_2_eq_2)
  moreover from w e1 have "filter is_store_write
     (snd (handleReassignGuide (reassigning ''t1'') None (Inl (StoreError None)) 0 0 0)) =
     [Update ''tour_assignments'' [(''guide_id'', JString ''g3'')] ''id'' ''a1'']"
    by (simp add: reassigning_def initial_state_def walk_t1_def)
  ultimately show ?thesis using g t a by simp
qed

text \<open>
  Claim C2, as stated, gives the new row a start date of the call day and an end date
  7 days later. The handler reads the clock once for each of the two dates and takes
  the UTC date of each read. When UTC midnight falls between the two reads, the end
  date is eight days after the start date: reads one millisecond apart around
  2024-02-29T00:00:00Z send the start date 2024-02-28 and the end date 2024-03-07,
  while seven days after the start date is 2024-03-06.
\<close>

theorem handleReassignGuide_span_counterexample:
  "reassignmentNewGuideId (reassigning ''t3'') \<noteq> '''' \<and>
   reassignmentTouristId (reassigning ''t3'') \<noteq> '''' \<and>
   \<not> (\<exists>a \<in> set (assignments (reassigning ''t3'')).
        touristId a = reassignmentTouristId (reassigning ''t3'')) \<and>
   snd (handleReassignGuide (reassigning ''t3'') None (Inr inserted_leap)
          1709164799999 1709164800000 1709164800200) =
     [Insert ''tour_assignments''
        [(''tourist_id'', JString ''t3''), (''guide_id'', JString ''g3''),
         (''tour_name'', JString ''AlUla Heritage Tour''),
         (''start_date'', JString ''2024-02-28''), (''end_date'', JString ''2024-03-07''),
         (''status'', JString ''active'')],
      Toast ''Success'' ''Tour guide assigned successfully!'' Default,
      Refetch FetchAssignments, Refetch FetchGuideRequests] \<and>
   utc_date (1709164799999 div msPerDay + 7) = ''2024-03-06'' \<and>
   ''2024-03-07'' \<noteq> ''2024-03-06''"
proof -
  have "snd (handleReassignGuide (reassigning ''t3'') None (Inr inserted_leap)
          1709164799999 1709164800000 1709164800200) =
     [Insert ''tour_assignments''
        [(''tourist_id'', JString ''t3''), (''guide_id'', JString ''g3''),
         (''tour_name'', JString ''AlUla Heritage Tour''),
         (''start_date'', JString ''2024-02-28''), (''end_date'', JString ''2024-03-07''),
         (''status'', JString ''active'')],
      Toast ''Success'' ''Tour guide assigned successfully!'' Default,
      Refetch FetchAssignments, Refetch FetchGuideRequests]"
    by (simp add: handleReassignGuide_def reassigning_def initial_state_def truthy_def
          walk_t1_def hike_t2_def inserted_leap_def midnight_clock)
  moreover have "reassignmentNewGuideId (reassigning ''t3'') \<noteq> ''''"
    "reassignmentTouristId (reassigning ''t3'') \<noteq> ''''"
    "\<not> (\<exists>a \<in> set (assignments (reassigning ''t3'')).
        touristId a = reassignmentTouristId (reassigning ''t3''))"
    by (simp_all add: reassigning_def initial_state_def walk_t1_def hike_t2_def)
  ultimately show ?thesis by (simp add: midnight_clock)
qed

text \<open>
  Claim C2, amended. For every tourist with no assignment in the local list, calling
  \<open>handleReassignGuide\<close> with a new guide issues, as its only write to the store, one
  insert into \<open>tour_assignments\<close> of a row with status \<open>active\<close>, the fixed tour name
  \<open>AlUla Heritage Tour\<close>, as start date the UTC date of the clock read taken for it, and
  as end date the UTC date seven days after the second clock read, taken for it. When
  the two reads fall on the same UTC day, the end date is 7 days after the start date.
  When the insert succeeds, exactly one assignment is appended to the local list: the
  returned id and dates with that tourist, guide, tour name and status. When the insert
  fails the state is unchanged.
\<close>

theorem handleReassignGuide_new:
  assumes guide: "reassignmentNewGuideId s \<noteq> ''''"
    and tourist: "reassignmentTouristId s \<noteq> ''''"
    and none: "\<forall>a \<in> set (assignments s). touristId a \<noteq> reassignmentTouristId s"
  shows "filter is_store_write (snd (handleReassignGuide s upd ins now1 now2 now3)) =
           [Insert ''tour_assignments''
              [(''tourist_id'', JString (reassignmentTouristId s)),
               (''guide_id'', JString (reassignmentNewGuideId s)),
               (''tour_name'', JString ''AlUla Heritage Tour''),
               (''start_date'', JString (utc_date (now1 div msPerDay))),
               (''end_date'', JString (utc_date (now2 div msPerDay + 7))),
               (''status'', JString ''active'')]] \<and>
         (now1 div msPerDay = now2 div msPerDay \<longrightarrow>
            filter is_store_write (snd (handleReassignGuide s upd ins now1 now2 now3)) =
              [Insert ''tour_assignments''
                 [(''tourist_id'', JString (reassignmentTouristId s)),
                  (''guide_id'', JString (reassignmentNewGuideId s)),
                  (''tour_name'', JString ''AlUla Heritage Tour''),
                  (''start_date'', JString (utc_date (now1 div msPerDay))),
                  (''end_date'', JString (utc_date (now1 div msPerDay + 7))),
                  (''status'', JString ''active'')]]) \<and>
         (\<forall>data. ins = Inr data \<longrightarrow>
            assignments (fst (handleReassignGuide s upd ins now1 now2 now3)) =
              assignments s @
                [\<lparr>Assignment.id = tour_assignment_row.id data,
                  touristId = reassignmentTouristId s,
                  guideId = reassignmentNewGuideId s,
                  Assignment.tourName = ''AlUla Heritage Tour'',
                  Assignment.startDate = start_date data,
                  Assignment.endDate = end_date data,
                  Assignment.status = ''active'',
                  createdAt = toISOString now3\<rparr>]) \<and>
         (\<forall>error. ins = Inl error \<longrightarrow>
            fst (handleReassignGuide s upd ins now1 now2 now3) = s)"
proof -
  from none have f: "find (\<lambda>a. touristId a = reassignmentTouristId s) (assignments s) = None"
    by (simp add: find_None_iff)
  show ?thesis
    using guide tourist f
    by (cases ins)
       (simp_all add: handleReassignGuide_def truthy_def Let_def iso_date_part_eq
          seven_days_later)
qed

theorem handleReassignGuide_new_witness:
  "reassignmentNewGuideId (reassigning ''t3'') \<noteq> '''' \<and>
   reassignmentTouristId (reassigning ''t3'') \<noteq> '''' \<and>
   \<not> (\<exists>a \<in> set (assignments (reassigning ''t3'')).
        touristId a = reassignmentTouristId (reassigning ''t3'')) \<and>
   (1762171445123::int) div msPerDay = 1762171445999 div msPerDay \<and>
   filter is_store_write
     (snd (handleReassignGuide (reassigning ''t3'') None (Inr inserted_t3)
             1762171445123 1762171445999 1762171445321)) =
     [Insert ''tour_assignments''
        [(''tourist_id'', JString ''t3''), (''guide_id'', JString ''g3''),
         (''tour_name'', JString ''AlUla Heritage Tour''),
         (''start_date'', JString ''2025-11-03''), (''end_date'', JString ''2025-11-10''),
         (''status'', JString ''active'')]] \<and>
   assignments
     (fst (handleReassignGuide (reassigning ''t3'') None (Inr inserted_t3)
             1762171445123 1762171445999 1762171445321)) =
     [walk_t1, hike_t2,
      \<lparr>Assignment.id = ''a3'', touristId = ''t3'', guideId = ''g3'',
       Assignment.tourName = ''AlUla Heritage Tour'', Assignment.startDate = ''2025-11-03'',
       Assignment.endDate = ''2025-11-10'', Assignment.status = ''active'',
       createdAt = ''2025-11-03T12:04:05.321Z''\<rparr>]"
proof -
  have g: "reassignmentNewGuideId (reassigning ''t3'') \<noteq> ''''"
    and t: "reassignmentTouristId (reassigning ''t3'') \<noteq> ''''"
    and a: "\<forall>a \<in> set (assignments (reassigning ''t3'')).
              touristId a \<noteq> reassignmentTouristId (reassigning ''t3'')"
    by (simp_all add: reassigning_def initial_state_def walk_t1_def hike_t2_def)
  note w = handleReassignGuide_new [OF g t a, of None "Inr inserted_t3"
             1762171445123 1762171445999 1762171445321]
  from w example_clock_next have "filter is_store_write
     (snd (handleReassignGuide (reassigning ''t3'') None (Inr inserted_t3)
             1762171445123 1762171445999 1762171445321)) =
     [Insert ''tour_assignments''
        [(''tourist_id'', JString (reassignmentTouristId (reassigning ''t3''))),
         (''guide_id'', JString (reassignmentNewGuideId (reassigning ''t3''))),
         (''tour_name'', JString ''AlUla Heritage Tour''),
         (''start_date'', JString (utc_date (1762171445123 div msPerDay))),
         (''end_date'', JString (utc_date (1762171445123 div msPerDay + 7))),
         (''status'', JString ''active'')]]"
    by blast
  then have 1: "filter is_store_write
     (snd (handleReassignGuide (reassigning ''t3'') None (Inr inserted_t3)
             1762171445123 1762171445999 1762171445321)) =
     [Insert ''tour_assignments''
        [(''tourist_id'', JString ''t3''), (''guide_id'', JString ''g3''),
         (''tour_name'', JString ''AlUla Heritage Tour''),
         (''start_date'', JString ''2025-11-03''), (''end_date'', JString ''2025-11-10''),
         (''status'', JString ''active'')]]"
    by (simp add: example_clock reassigning_def initial_state_def)
  from w have "assignments
     (fst (handleReassignGuide (reassigning ''t3'') None (Inr inserted_t3)
             1762171445123 1762171445999 1762171445321)) =
     assignments (reassigning ''t3'') @
       [\<lparr>Assignment.id = tour_assignment_row.id inserted_t3,
         touristId = reassignmentTouristId (reassigning ''t3''),
         guideId = reassignmentNewGuideId (reassigning ''t3''),
         Assignment.tourName = ''AlUla Heritage Tour'',
         Assignment.startDate = start_date inserted_t3,
         Assignment.endDate = end_date inserted_t3,
         Assignment.status = ''active'',
         createdAt = toISOString 1762171445321\<rparr>]"
    by blast
  then have 2: "assignments
     (fst (handleReassignGuide (reassigning ''t3'') None (Inr inserted_t3)
             1762171445123 1762171445999 1762171445321)) =
     [walk_t1, hike_t2,
      \<lparr>Assignment.id = ''a3'', touristId = ''t3'', guideId = ''g3'',
       Assignment.tourName = ''AlUla Heritage Tour'', Assignment.startDate = ''2025-11-03'',
       Assignment.endDate = ''2025-11-10'', Assignment.status = ''active'',
       createdAt = ''2025-11-03T12:04:05.321Z''\<rparr>]"
    by (simp add: example_clock reassigning_def initial_state_def inserted_t3_def)
  from g t a example_clock_next 1 2 show ?thesis by blast
qed

subsection \<open>Creating an assignment\<close>

text \<open>
  Claim C5. Whenever at least one of the five form fields (tourist, guide, tour name,
  start date, end date) is empty, \<open>handleAssignGuide\<close> shows the validation error and
  returns: that toast is its only effect, so no call reaches the store, and the state,
  with the assignments list and the form fields, is unchanged.
\<close>

theorem handleAssignGuide_validation:
  assumes "selectedTourist s = '''' \<or> selectedGuide s = '''' \<or>
           admin_state.tourName s = '''' \<or> admin_state.startDate s = '''' \<or>
           admin_state.endDate s = ''''"
  shows "fst (handleAssignGuide s ins ntf now) = s \<and>
         snd (handleAssignGuide s ins ntf now) =
           [Toast ''Error'' ''Please fill in all fields'' Destructive] \<and>
         (\<forall>e \<in> set (snd (handleAssignGuide s ins ntf now)). \<not> is_backend_call e)"
  using assms by (auto simp add: handleAssignGuide_def truthy_def)

theorem handleAssignGuide_validation_witness:
  "admin_state.endDate (filled_form\<lparr>admin_state.endDate := ''''\<rparr>) = '''' \<and>
   handleAssignGuide (filled_form\<lparr>admin_state.endDate := ''''\<rparr>) (Inr inserted_t3) InvokeOk 0 =
     (filled_form\<lparr>admin_state.endDate := ''''\<rparr>,
      [Toast ''Error'' ''Please fill in all fields'' Destructive])"
  using handleAssignGuide_validation
          [of "filled_form\<lparr>admin_state.endDate := ''''\<rparr>" "Inr inserted_t3" InvokeOk 0]
  by (simp add: prod_eq_iff)

text \<open>
  Claim C6. Whenever the form is filled in and the insert succeeds but the notification
  call fails (it resolves with an error or it throws), the failure is swallowed: the
  handler ends exactly as after a successful notification. The new assignment, with
  status \<open>active\<close>, is appended to the local list, the five form fields are cleared, the
  toast shown is the success toast and no error toast is shown; a thrown failure is
  only written to the console.
\<close>

theorem handleAssignGuide_notification_swallowed:
  assumes "selectedTourist s \<noteq> ''''" and "selectedGuide s \<noteq> ''''"
    and "admin_state.tourName s \<noteq> ''''" and "admin_state.startDate s \<noteq> ''''"
    and "admin_state.endDate s \<noteq> ''''"
    and "ntf = InvokeError \<or> ntf = InvokeThrows"
  shows "fst (handleAssignGuide s (Inr data) ntf now) =
           s\<lparr>assignments := assignments s @
                  [\<lparr>Assignment.id = tour_assignment_row.id data,
                    touristId = selectedTourist s, guideId = selectedGuide s,
                    Assignment.tourName = admin_state.tourName s,
                    Assignment.startDate = admin_state.startDate s,
                    Assignment.endDate = admin_state.endDate s,
                    Assignment.status = ''active'', createdAt = toISOString now\<rparr>],
              selectedTourist := '''', selectedGuide := '''', admin_state.tourName := '''',
              admin_state.startDate := '''', admin_state.endDate := ''''\<rparr> \<and>
         fst (handleAssignGuide s (Inr data) ntf now) =
           fst (handleAssignGuide s (Inr data) InvokeOk now) \<and>
         snd (handleAssignGuide s (Inr data) ntf now) =
           [Insert ''tour_assignments''
              [(''tourist_id'', JString (selectedTourist s)),
               (''guide_id'', JString (selectedGuide s)),
               (''tour_name'', JString (admin_state.tourName s)),
               (''start_date'', JString (admin_state.startDate s)),
               (''end_date'', JString (admin_state.endDate s)),
               (''status'', JString ''active'')],
            Invoke ''send-assignment-notification''
              [(''touristId'', JString (selectedTourist s)),
               (''guideId'', JString (selectedGuide s)),
               (''tourName'', JString (admin_state.tourName s)),
               (''startDate'', JString (admin_state.startDate s)),
               (''endDate'', JString (admin_state.endDate s))]] @
           (if ntf = InvokeThrows then [ConsoleError ''Error sending notification emails:'']
            else []) @
           [Toast ''Assignment Created''
              ''Tour guide assigned successfully and notifications sent!'' Default] \<and>
         \<not> list_ex is_error_toast (snd (handleAssignGuide s (Inr data) ntf now))"
  using assms by (auto simp add: handleAssignGuide_def truthy_def Let_def)

theorem handleAssignGuide_notification_swallowed_witness:
  "selectedTourist filled_form \<noteq> '''' \<and> selectedGuide filled_form \<noteq> '''' \<and>
   admin_state.tourName filled_form \<noteq> '''' \<and> admin_state.startDate filled_form \<noteq> '''' \<and>
   admin_state.endDate filled_form \<noteq> '''' \<and>
   assignments (fst (handleAssignGuide filled_form (Inr inserted_t3) InvokeThrows 1762171445321)) =
     [walk_t1,
      \<lparr>Assignment.id = ''a3'', touristId = ''t3'', guideId = ''g3'',
       Assignment.tourName = ''Tombs of Hegra'', Assignment.startDate = ''2025-11-03'',
       Assignment.endDate = ''2025-11-10'', Assignment.status = ''active'',
       createdAt = ''2025-11-03T12:04:05.321Z''\<rparr>] \<and>
   selectedTourist (fst (handleAssignGuide filled_form (Inr inserted_t3) InvokeThrows 1762171445321)) = '''' \<and>
   \<not> list_ex is_error_toast
       (snd (handleAssignGuide filled_form (Inr inserted_t3) InvokeThrows 1762171445321))"
proof -
  have f: "selectedTourist filled_form \<noteq> ''''" "selectedGuide filled_form \<noteq> ''''"
    "admin_state.tourName filled_form \<noteq> ''''" "admin_state.startDate filled_form \<noteq> ''''"
    "admin_state.endDate filled_form \<noteq> ''''"
    by (simp_all add: filled_form_def initial_state_def)
  have n: "InvokeThrows = InvokeError \<or> InvokeThrows = InvokeThrows" by simp
  note w = handleAssignGuide_notification_swallowed [OF f n, of inserted_t3 1762171445321]
  from w have state:
    "fst (handleAssignGuide filled_form (Inr inserted_t3) InvokeThrows 1762171445321) =
       filled_form\<lparr>assignments := assignments filled_form @
              [\<lparr>Assignment.id = tour_assignment_row.id inserted_t3,
                touristId = selectedTourist filled_form, guideId = selectedGuide filled_form,
                Assignment.tourName = admin_state.tourName filled_form,
                Assignment.startDate = admin_state.startDate filled_form,
                Assignment.endDate = admin_state.endDate filled_form,
                Assignment.status = ''active'', createdAt = toISOString 1762171445321\<rparr>],
          selectedTourist := '''', selectedGuide := '''', admin_state.tourName := '''',
          admin_state.startDate := '''', admin_state.endDate := ''''\<rparr>"
    by (rule conjunct1)
  from w have quiet: "\<not> list_ex is_error_toast
      (snd (handleAssignGuide filled_form (Inr inserted_t3) InvokeThrows 1762171445321))"
    by blast
  have "assignments
      (fst (handleAssignGuide filled_form (Inr inserted_t3) InvokeThrows 1762171445321)) =
      [walk_t1,
       \<lparr>Assignment.id = ''a3'', touristId = ''t3'', guideId = ''g3'',
        Assignment.tourName = ''Tombs of Hegra'', Assignment.startDate = ''2025-11-03'',
        Assignment.endDate = ''2025-11-10'', Assignment.status = ''active'',
        createdAt = ''2025-11-03T12:04:05.321Z''\<rparr>]"
    and "selectedTourist
      (fst (handleAssignGuide filled_form (Inr inserted_t3) InvokeThrows 1762171445321)) = ''''"
    unfolding state
    by (simp_all add: example_clock filled_form_def initial_state_def inserted_t3_def)
  with f quiet show ?thesis by simp
qed

subsection \<open>Admin login\<close>

text \<open>
  Claim C8. For every pair of admin id and password, \<open>handleLogin\<close> called in the
  logged-out state sets the logged-in state if and only if the admin id is \<open>admin\<close> and
  the password is \<open>admin123\<close>. The check is made on the client: no effect of the handler
  is a call on the backend. With the right pair the success toast is shown; any other
  pair leaves the whole state, and so the logged-out state, unchanged and reports the
  failure with a destructive toast.
\<close>

theorem handleLogin_fixed_credentials:
  assumes "\<not> isLoggedIn s"
  shows "(isLoggedIn (fst (handleLogin s)) \<longleftrightarrow>
            adminId s = ''admin'' \<and> admin_state.password s = ''admin123'') \<and>
         (\<forall>e \<in> set (snd (handleLogin s)). \<not> is_backend_call e) \<and>
         (adminId s = ''admin'' \<and> admin_state.password s = ''admin123'' \<longrightarrow>
            snd (handleLogin s) =
              [Toast ''Login Successful'' ''Welcome to the Admin Dashboard!'' Default]) \<and>
         (\<not> (adminId s = ''admin'' \<and> admin_state.password s = ''admin123'') \<longrightarrow>
            fst (handleLogin s) = s \<and>
            snd (handleLogin s) =
              [Toast ''Login Failed'' ''Invalid credentials. Try admin/admin123'' Destructive])"
  using assms by (simp add: handleLogin_def)

theorem handleLogin_fixed_credentials_witness:
  "\<not> isLoggedIn (initial_state\<lparr>adminId := ''admin'', admin_state.password := ''admin123''\<rparr>) \<and>
   isLoggedIn (fst (handleLogin
     (initial_state\<lparr>adminId := ''admin'', admin_state.password := ''admin123''\<rparr>))) \<and>
   \<not> isLoggedIn (initial_state\<lparr>adminId := ''admin'', admin_state.password := ''admin''\<rparr>) \<and>
   \<not> isLoggedIn (fst (handleLogin
     (initial_state\<lparr>adminId := ''admin'', admin_state.password := ''admin''\<rparr>)))"
  using handleLogin_fixed_credentials
          [of "initial_state\<lparr>adminId := ''admin'', admin_state.password := ''admin123''\<rparr>"]
        handleLogin_fixed_credentials
          [of "initial_state\<lparr>adminId := ''admin'', admin_state.password := ''admin''\<rparr>"]
  by (simp add: initial_state_def)

subsection \<open>Creating a guide\<close>

text \<open>Splitting in the source and in the specification agree.\<close>

lemma spec_split_Nil: "spec_split c [] = [[]]"
  by (simp add: spec_split.simps)

lemma spec_split_sep: "spec_split c (c # xs) = [] # spec_split c xs"
  by (simp add: spec_split.simps [of c "c # xs"])

lemma spec_split_other:
  assumes "x \<noteq> c"
  shows "spec_split c (x # xs) = (case spec_split c xs of p # ps \<Rightarrow> (x # p) # ps | [] \<Rightarrow> [[x]])"
proof (cases "dropWhile (\<lambda>x. x \<noteq> c) xs")
  case Nil
  show ?thesis
    using assms by (simp add: spec_split.simps [of c "x # xs"] spec_split.simps [of c xs] Nil)
next
  case (Cons y rest)
  show ?thesis
    using assms by (simp add: spec_split.simps [of c "x # xs"] spec_split.simps [of c xs] Cons)
qed

lemma js_split_spec_split: "js_split c s = spec_split c s"
  by (induction s) (simp_all add: spec_split_Nil spec_split_sep spec_split_other)

lemma specializations_of_spec: "specializations_of s = spec_specializations s"
proof (cases s)
  case Nil
  then show ?thesis
    by (simp add: specializations_of_def spec_specializations_def truthy_def spec_split_Nil trim_def)
next
  case (Cons x xs)
  then show ?thesis
    by (simp add: specializations_of_def spec_specializations_def js_split_spec_split truthy_def [abs_def])
qed

text \<open>
  What splitting and trimming are: joining the pieces with the separator gives the
  string back and no piece contains the separator; trimming removes white space, and
  only white space, from both ends.
\<close>

lemma js_join_split: "js_join c (js_split c s) = s"
proof (induction s)
  case Nil
  then show ?case by simp
next
  case (Cons x xs)
  obtain p ps where sp: "js_split c xs = p # ps"
    using js_split_not_Nil [of c xs] by (cases "js_split c xs") auto
  with Cons show ?case by (cases ps) auto
qed

lemma js_split_no_sep: "p \<in> set (js_split c s) \<Longrightarrow> c \<notin> set p"
proof (induction s arbitrary: p)
  case Nil
  then show ?case by simp
next
  case (Cons x xs)
  obtain q qs where sp: "js_split c xs = q # qs"
    using js_split_not_Nil [of c xs] by (cases "js_split c xs") auto
  with Cons show ?case by (auto split: if_splits)
qed

lemma trim_suffix:
  "dropWhile isWhiteSpace s =
     trim s @ rev (takeWhile isWhiteSpace (rev (dropWhile isWhiteSpace s)))"
proof -
  let ?m = "dropWhile isWhiteSpace s"
  have "rev (takeWhile isWhiteSpace (rev ?m) @ dropWhile isWhiteSpace (rev ?m)) = rev (rev ?m)"
    by (simp only: takeWhile_dropWhile_id)
  then have "rev (dropWhile isWhiteSpace (rev ?m)) @ rev (takeWhile isWhiteSpace (rev ?m)) = ?m"
    by (simp only: rev_append rev_rev_ident)
  then show ?thesis unfolding trim_def by (rule sym)
qed

lemma trim_shape:
  "\<exists>a b. s = a @ trim s @ b \<and> (\<forall>x \<in> set a. isWhiteSpace x) \<and> (\<forall>x \<in> set b. isWhiteSpace x)"
proof -
  let ?a = "takeWhile isWhiteSpace s"
  let ?b = "rev (takeWhile isWhiteSpace (rev (dropWhile isWhiteSpace s)))"
  have "s = ?a @ dropWhile isWhiteSpace s" by simp
  with trim_suffix [of s] have "s = ?a @ trim s @ ?b" by simp
  moreover have "\<forall>x \<in> set ?a. isWhiteSpace x"
    by (auto dest: set_takeWhileD)
  moreover have "\<forall>x \<in> set ?b. isWhiteSpace x"
    by (auto dest: set_takeWhileD)
  ultimately show ?thesis by blast
qed

lemma trim_ends:
  assumes "trim s \<noteq> []"
  shows "\<not> isWhiteSpace (hd (trim s)) \<and> \<not> isWhiteSpace (last (trim s))"
proof -
  let ?m = "dropWhile isWhiteSpace s"
  let ?r = "dropWhile isWhiteSpace (rev ?m)"
  from assms have rn: "?r \<noteq> []" by (simp add: trim_def)
  then have "\<not> isWhiteSpace (hd ?r)" by (rule hd_dropWhile)
  moreover have "last (trim s) = hd ?r" using rn by (simp add: trim_def last_rev)
  ultimately have l: "\<not> isWhiteSpace (last (trim s))" by simp
  have mn: "?m \<noteq> []"
  proof
    assume e: "?m = []"
    have "?r = []" unfolding e by simp
    with rn show False by simp
  qed
  then have h: "\<not> isWhiteSpace (hd ?m)" by (rule hd_dropWhile)
  from assms trim_suffix [of s] have "hd ?m = hd (trim s)"
    by (metis hd_append2)
  with h l show ?thesis by simp
qed

lemma specializations_example:
  "specializations_of ''Desert, Night Tour, '' = [''Desert'', ''Night Tour'']"
  by code_simp

lemma spec_specializations_example:
  "spec_specializations ''Desert, Night Tour, '' = [''Desert'', ''Night Tour'']"
  using specializations_example by (simp add: specializations_of_spec)

text \<open>
  Claim C7. For every specializations input, the list that \<open>handleCreateGuide\<close> computes
  is the one the specification describes: the input split at the commas, each entry
  trimmed, the empty entries discarded; the input \<open>Desert, Night Tour, \<close> (with its
  trailing comma and blank) gives \<open>Desert\<close> and \<open>Night Tour\<close>. When the five required
  fields are filled in, the only write to the store is one insert into \<open>guides\<close>
  carrying that list and the rating 0.
\<close>

theorem handleCreateGuide_specializations:
  assumes "newGuideName s \<noteq> ''''" and "newGuideEmail s \<noteq> ''''" and "newGuidePhone s \<noteq> ''''"
    and "newGuideId s \<noteq> ''''" and "newGuidePassword s \<noteq> ''''"
  shows "specializations_of (newGuideSpecializations s) =
           spec_specializations (newGuideSpecializations s) \<and>
         filter is_store_write (snd (handleCreateGuide s ins)) =
           [Insert ''guides''
              [(''guide_id'', JString (newGuideId s)),
               (''password'', JString (newGuidePassword s)),
               (''name'', JString (newGuideName s)),
               (''email'', JString (newGuideEmail s)),
               (''phone'', JString (newGuidePhone s)),
               (''specializations'', JArray (spec_specializations (newGuideSpecializations s))),
               (''status'', JString (newGuideStatus s)),
               (''rating'', JNumber 0)]] \<and>
         (newGuideSpecializations s = ''Desert, Night Tour, '' \<longrightarrow>
            spec_specializations (newGuideSpecializations s) = [''Desert'', ''Night Tour''])"
proof -
  have "filter is_store_write (snd (handleCreateGuide s ins)) =
           [Insert ''guides''
              [(''guide_id'', JString (newGuideId s)),
               (''password'', JString (newGuidePassword s)),
               (''name'', JString (newGuideName s)),
               (''email'', JString (newGuideEmail s)),
               (''phone'', JString (newGuidePhone s)),
               (''specializations'', JArray (specializations_of (newGuideSpecializations s))),
               (''status'', JString (newGuideStatus s)),
               (''rating'', JNumber 0)]]"
    using assms by (cases ins) (simp_all add: handleCreateGuide_def truthy_def Let_def)
  then show ?thesis
    using spec_specializations_example by (simp add: specializations_of_spec)
qed

theorem handleCreateGuide_specializations_witness:
  "newGuideName guide_form \<noteq> '''' \<and> newGuideEmail guide_form \<noteq> '''' \<and>
   newGuidePhone guide_form \<noteq> '''' \<and> newGuideId guide_form \<noteq> '''' \<and>
   newGuidePassword guide_form \<noteq> '''' \<and>
   newGuideSpecializations guide_form = ''Desert, Night Tour, '' \<and>
   filter is_store_write (snd (handleCreateGuide guide_form None)) =
     [Insert ''guides''
        [(''guide_id'', JString ''G-7''),
         (''password'', JString ''pw-7''),
         (''name'', JString ''Salem''),
         (''email'', JString ''salem@example.com''),
         (''phone'', JString ''+966511111111''),
         (''specializations'', JArray [''Desert'', ''Night Tour'']),
         (''status'', JString ''available''),
         (''rating'', JNumber 0)]]"
proof -
  have f: "newGuideName guide_form \<noteq> ''''" "newGuideEmail guide_form \<noteq> ''''"
    "newGuidePhone guide_form \<noteq> ''''" "newGuideId guide_form \<noteq> ''''"
    "newGuidePassword guide_form \<noteq> ''''"
    by (simp_all add: guide_form_def initial_state_def)
  have i: "newGuideSpecializations guide_form = ''Desert, Night Tour, ''"
    by (simp add: guide_form_def initial_state_def)
  note w = handleCreateGuide_specializations [OF f, of None]
  from w i have l: "spec_specializations (newGuideSpecializations guide_form) =
      [''Desert'', ''Night Tour'']"
    by blast
  from w have "filter is_store_write (snd (handleCreateGuide guide_form None)) =
      [Insert ''guides''
         [(''guide_id'', JString (newGuideId guide_form)),
          (''password'', JString (newGuidePassword guide_form)),
          (''name'', JString (newGuideName guide_form)),
          (''email'', JString (newGuideEmail guide_form)),
          (''phone'', JString (newGuidePhone guide_form)),
          (''specializations'', JArray (spec_specializations (newGuideSpecializations guide_form))),
          (''status'', JString (newGuideStatus guide_form)),
          (''rating'', JNumber 0)]]"
    by blast
  then have "filter is_store_write (snd (handleCreateGuide guide_form None)) =
     [Insert ''guides''
        [(''guide_id'', JString ''G-7''),
         (''password'', JString ''pw-7''),
         (''name'', JString ''Salem''),
         (''email'', JString ''salem@example.com''),
         (''phone'', JString ''+966511111111''),
         (''specializations'', JArray [''Desert'', ''Night Tour'']),
         (''status'', JString ''available''),
         (''rating'', JNumber 0)]]"
    unfolding l by (simp add: guide_form_def initial_state_def)
  with f i show ?thesis by blast
qed

subsection \<open>Answering a guide request\<close>

lemma updateData_keys:
  "(''assigned_guide_id'' \<in> fst ` set (updateData st g response)) \<longleftrightarrow>
     st = Approved \<and> (\<exists>x. g = Some x \<and> x \<noteq> '''')"
  by (cases g) (auto simp add: updateData_def truthy_def)

lemma rejected_row:
  "foldl write_column r (updateData Rejected g response) =
     r\<lparr>guide_request_row.status := ''rejected'',
       admin_response := (case response of None \<Rightarrow> admin_response r | Some x \<Rightarrow> Some x)\<rparr>"
  by (cases g; cases response) (simp_all add: updateData_def of_optional_def)

text \<open>
  Claim C4, as stated, says that after a request is answered with \<open>rejected\<close> its
  \<open>assigned_guide_id\<close> is unset whatever it was before. The update that the handler
  issues does not name that column, so the store keeps its value: a request whose
  reference was set is rejected with the reference still set.
\<close>

theorem rejected_keeps_assigned_guide_counterexample:
  "run_updates [request_with_guide]
     (handleRequestResponse ''r1'' Rejected None
        (Some ''Sorry, no guides available at this time.'') None) =
     [request_with_guide\<lparr>guide_request_row.status := ''rejected'',
        admin_response := Some ''Sorry, no guides available at this time.''\<rparr>] \<and>
   assigned_guide_id (hd (run_updates [request_with_guide]
     (handleRequestResponse ''r1'' Rejected None
        (Some ''Sorry, no guides available at this time.'') None))) \<noteq> None"
  by (simp add: handleRequestResponse_def updateData_def of_optional_def store_update_def
        request_with_guide_def)

text \<open>
  Claim C4, amended. Answering a request with \<open>rejected\<close> issues, as its only write to
  the store, an update of that request that sets \<open>status\<close> to \<open>rejected\<close> and
  \<open>admin_response\<close> to the response; it does not write \<open>assigned_guide_id\<close>. When the
  store carries the update out, every request with that id has status \<open>rejected\<close> and
  every request keeps the assigned-guide reference it had before (unset only if it was
  unset). The reference is part of an update only when the answer is \<open>approved\<close> and a
  non-empty guide id is given.
\<close>

theorem handleRequestResponse_rejected:
  "filter is_store_write (handleRequestResponse requestId Rejected g response upd) =
     [Update ''guide_requests''
        [(''status'', JString ''rejected''), (''admin_response'', of_optional response)]
        ''id'' requestId] \<and>
   run_updates table (handleRequestResponse requestId Rejected g response None) =
     map (\<lambda>r. if guide_request_row.id r = requestId
              then r\<lparr>guide_request_row.status := ''rejected'',
                     admin_response :=
                       (case response of None \<Rightarrow> admin_response r | Some x \<Rightarrow> Some x)\<rparr>
              else r) table \<and>
   map assigned_guide_id (run_updates table (handleRequestResponse requestId Rejected g response None)) =
     map assigned_guide_id table \<and>
   ((''assigned_guide_id'' \<in> fst ` set (updateData st g response)) \<longleftrightarrow>
      st = Approved \<and> (\<exists>x. g = Some x \<and> x \<noteq> ''''))"
proof -
  have w: "filter is_store_write (handleRequestResponse requestId Rejected g response upd) =
     [Update ''guide_requests''
        [(''status'', JString ''rejected''), (''admin_response'', of_optional response)]
        ''id'' requestId]"
    by (cases upd; cases g) (simp_all add: handleRequestResponse_def updateData_def)
  have t: "run_updates table (handleRequestResponse requestId Rejected g response None) =
     map (\<lambda>r. if guide_request_row.id r = requestId
              then r\<lparr>guide_request_row.status := ''rejected'',
                     admin_response :=
                       (case response of None \<Rightarrow> admin_response r | Some x \<Rightarrow> Some x)\<rparr>
              else r) table"
    by (simp add: handleRequestResponse_def store_update_def rejected_row)
  have a: "map assigned_guide_id
      (run_updates table (handleRequestResponse requestId Rejected g response None)) =
     map assigned_guide_id table"
    unfolding t by (induction table) simp_all
  from w t a updateData_keys show ?thesis by blast
qed

theorem handleRequestResponse_rejected_witness:
  "map guide_request_row.status (run_updates [request_with_guide]
     (handleRequestResponse ''r1'' Rejected (Some ''g2'') None None)) = [''rejected''] \<and>
   map assigned_guide_id (run_updates [request_with_guide]
     (handleRequestResponse ''r1'' Rejected (Some ''g2'') None None)) = [Some ''g1''] \<and>
   ''assigned_guide_id'' \<in> fst ` set (updateData Approved (Some ''g2'') None)"
proof -
  note w = handleRequestResponse_rejected
             [of "''r1''" "Some ''g2''" None None "[request_with_guide]" Approved]
  from w have "run_updates [request_with_guide]
     (handleRequestResponse ''r1'' Rejected (Some ''g2'') None None) =
     [request_with_guide\<lparr>guide_request_row.status := ''rejected''\<rparr>]"
    by (simp add: request_with_guide_def)
  moreover from w have "''assigned_guide_id'' \<in> fst ` set (updateData Approved (Some ''g2'') None)"
    by simp
  ultimately show ?thesis by (simp add: request_with_guide_def)
qed

subsection \<open>Deriving the status of a tourist\<close>

text \<open>The dictionary holds, for each tourist, the entry of the last fetched row.\<close>

lemma assignmentMap_of_snoc:
  "assignmentMap_of (rows @ [r]) =
     (assignmentMap_of rows)(current_assignment_row.tourist_id r \<mapsto> info_of r)"
  by (simp add: assignmentMap_of_def info_of_def)

lemma assignmentMap_of_last:
  "assignmentMap_of rows k =
     (if filter (\<lambda>r. current_assignment_row.tourist_id r = k) rows = [] then None
      else Some (info_of (last (filter (\<lambda>r. current_assignment_row.tourist_id r = k) rows))))"
proof (induction rows rule: rev_induct)
  case Nil
  then show ?case by (simp add: assignmentMap_of_def)
next
  case (snoc x xs)
  then show ?case
    by (cases "current_assignment_row.tourist_id x = k") (simp_all add: assignmentMap_of_snoc)
qed

lemma guide_name_or_unknown_truthy: "guide_name_or_unknown r \<noteq> ''''"
  by (simp add: guide_name_or_unknown_def js_or_def truthy_def split: option.splits)

lemma in_status_example:
  "in_status [''pending'', ''active''] [with_ali, with_badr] = [with_ali, with_badr]"
  by (simp add: in_status_def with_ali_def with_badr_def)

lemma tourists_fetched:
  "tourists (fst (fetchTourists s (Inr profilesData) (Inr rows))) =
     map (formatTourist (assignmentMap_of rows)) profilesData"
  by (simp add: fetchTourists_def formattedTourists_def)

lemma formatTourist_id: "Tourist.id (formatTourist m p) = profile_row.id p"
  by (simp add: formatTourist_def Let_def)

lemma formatTourist_none:
  assumes "filter (\<lambda>r. current_assignment_row.tourist_id r = profile_row.id p) rows = []"
  shows "Tourist.status (formatTourist (assignmentMap_of rows) p) = TouristActive"
    and "Tourist.assignedGuide (formatTourist (assignmentMap_of rows) p) = ''''"
  using assms by (simp_all add: formatTourist_def Let_def assignmentMap_of_last js_or_def)

lemma formatTourist_last:
  assumes "filter (\<lambda>r. current_assignment_row.tourist_id r = profile_row.id p) rows \<noteq> []"
  defines "r \<equiv> last (filter (\<lambda>r. current_assignment_row.tourist_id r = profile_row.id p) rows)"
  shows "Tourist.status (formatTourist (assignmentMap_of rows) p) =
           (if current_assignment_row.status r = ''active'' then TouristAssigned
            else if current_assignment_row.status r = ''pending'' then TouristPending
            else TouristActive)"
    and "Tourist.assignedGuide (formatTourist (assignmentMap_of rows) p) = guide_name_or_unknown r"
  using assms guide_name_or_unknown_truthy [of r]
  by (simp_all add: formatTourist_def Let_def assignmentMap_of_last info_of_def js_or_def truthy_def)

lemma in_status_none:
  "(\<forall>r \<in> set table. current_assignment_row.tourist_id r = k \<longrightarrow>
       current_assignment_row.status r \<noteq> ''pending'' \<and> current_assignment_row.status r \<noteq> ''active'')
   \<Longrightarrow> filter (\<lambda>r. current_assignment_row.tourist_id r = k)
         (in_status [''pending'', ''active''] table) = []"
  by (auto simp add: in_status_def filter_empty_conv)

lemma in_status_last:
  assumes "filter (\<lambda>r. current_assignment_row.tourist_id r = k)
             (in_status [''pending'', ''active''] table) \<noteq> []"
  defines "r \<equiv> last (filter (\<lambda>r. current_assignment_row.tourist_id r = k)
             (in_status [''pending'', ''active''] table))"
  shows "r \<in> set table" and "current_assignment_row.tourist_id r = k"
    and "current_assignment_row.status r = ''pending'' \<or> current_assignment_row.status r = ''active''"
proof -
  have "r \<in> set (filter (\<lambda>r. current_assignment_row.tourist_id r = k)
             (in_status [''pending'', ''active''] table))"
    unfolding r_def using assms(1) by (rule last_in_set)
  then show "r \<in> set table" and "current_assignment_row.tourist_id r = k"
    and "current_assignment_row.status r = ''pending'' \<or> current_assignment_row.status r = ''active''"
    by (auto simp add: in_status_def)
qed

text \<open>
  Claim C3, as stated, promises status \<open>assigned\<close> and the guide name of the assignment
  whenever an assignment of the tourist with status \<open>active\<close> is among the fetched rows.
  With an active row followed by a pending row of the same tourist, the tourist is
  \<open>pending\<close> and shows the guide of the pending row.
\<close>

theorem fetchTourists_active_row_counterexample:
  "with_ali \<in> set (in_status [''pending'', ''active''] [with_ali, with_badr]) \<and>
   current_assignment_row.tourist_id with_ali = profile_row.id aisha \<and>
   current_assignment_row.status with_ali = ''active'' \<and>
   guides with_ali = Some (JoinedGuide (Some ''Ali'')) \<and>
   map (\<lambda>t. (Tourist.status t, Tourist.assignedGuide t))
     (tourists (fst (fetchTourists initial_state (Inr [aisha])
        (Inr (in_status [''pending'', ''active''] [with_ali, with_badr]))))) =
     [(TouristPending, ''Badr'')]"
  unfolding in_status_example
  by (simp add: fetchTourists_def formattedTourists_def formatTourist_def assignmentMap_of_def
        guide_name_or_unknown_def js_or_def truthy_def aisha_def with_ali_def with_badr_def)

text \<open>
  Claim C3, amended. For every fetched profile, the tourist that \<open>fetchTourists\<close> puts
  at its position has the profile's id and: if no row of \<open>tour_assignments\<close> with that
  tourist's id has status \<open>pending\<close> or \<open>active\<close>, its status is \<open>active\<close> and it has
  no assigned guide; otherwise its status and guide come from the last such row in
  fetched order: status \<open>assigned\<close> if that row is \<open>active\<close>, \<open>pending\<close> if it is
  \<open>pending\<close>, and as assigned guide the name of the guide joined to that row, or
  \<open>Unknown Guide\<close> when the guide or its name is missing or empty.
\<close>

theorem fetchTourists_derived_status:
  fixes s :: admin_state and table :: "current_assignment_row list"
  defines "rows \<equiv> in_status [''pending'', ''active''] table"
  defines "fetched \<equiv> \<lambda>ps. tourists (fst (fetchTourists s (Inr ps) (Inr rows)))"
  defines "mine \<equiv> \<lambda>p. filter (\<lambda>r. current_assignment_row.tourist_id r = profile_row.id p) rows"
  assumes i: "i < length profilesData"
  shows "Tourist.id (fetched profilesData ! i) = profile_row.id (profilesData ! i) \<and>
         ((\<forall>r \<in> set table. current_assignment_row.tourist_id r = profile_row.id (profilesData ! i) \<longrightarrow>
              current_assignment_row.status r \<noteq> ''pending'' \<and>
              current_assignment_row.status r \<noteq> ''active'') \<longrightarrow>
            Tourist.status (fetched profilesData ! i) = TouristActive \<and>
            Tourist.assignedGuide (fetched profilesData ! i) = '''') \<and>
         (mine (profilesData ! i) \<noteq> [] \<longrightarrow>
            last (mine (profilesData ! i)) \<in> set table \<and>
            (current_assignment_row.status (last (mine (profilesData ! i))) = ''active'' \<longrightarrow>
               Tourist.status (fetched profilesData ! i) = TouristAssigned) \<and>
            (current_assignment_row.status (last (mine (profilesData ! i))) = ''pending'' \<longrightarrow>
               Tourist.status (fetched profilesData ! i) = TouristPending) \<and>
            Tourist.status (fetched profilesData ! i) \<noteq> TouristActive \<and>
            Tourist.assignedGuide (fetched profilesData ! i) =
              js_or (case guides (last (mine (profilesData ! i))) of
                       None \<Rightarrow> None | Some g \<Rightarrow> guide_name g) ''Unknown Guide'')"
proof -
  let ?p = "profilesData ! i"
  have f: "fetched profilesData ! i = formatTourist (assignmentMap_of rows) ?p"
    using i by (simp add: fetched_def tourists_fetched)
  have 1: "Tourist.id (fetched profilesData ! i) = profile_row.id ?p"
    by (simp add: f formatTourist_id)
  have 2: "Tourist.status (fetched profilesData ! i) = TouristActive \<and>
           Tourist.assignedGuide (fetched profilesData ! i) = ''''"
    if "\<forall>r \<in> set table. current_assignment_row.tourist_id r = profile_row.id ?p \<longrightarrow>
              current_assignment_row.status r \<noteq> ''pending'' \<and>
              current_assignment_row.status r \<noteq> ''active''"
    using in_status_none [OF that] formatTourist_none [of ?p rows]
    by (simp add: f rows_def)
  have 3: "last (mine ?p) \<in> set table \<and>
            (current_assignment_row.status (last (mine ?p)) = ''active'' \<longrightarrow>
               Tourist.status (fetched profilesData ! i) = TouristAssigned) \<and>
            (current_assignment_row.status (last (mine ?p)) = ''pending'' \<longrightarrow>
               Tourist.status (fetched profilesData ! i) = TouristPending) \<and>
            Tourist.status (fetched profilesData ! i) \<noteq> TouristActive \<and>
            Tourist.assignedGuide (fetched profilesData ! i) =
              js_or (case guides (last (mine ?p)) of
                       None \<Rightarrow> None | Some g \<Rightarrow> guide_name g) ''Unknown Guide''"
    if m: "mine ?p \<noteq> []"
  proof -
    from m have ne: "filter (\<lambda>r. current_assignment_row.tourist_id r = profile_row.id ?p)
        (in_status [''pending'', ''active''] table) \<noteq> []"
      by (simp add: mine_def rows_def)
    note l = in_status_last [OF ne]
    note t = formatTourist_last [of ?p "in_status [''pending'', ''active''] table", OF ne]
    from l t show ?thesis
      by (auto simp add: f mine_def rows_def guide_name_or_unknown_def)
  qed
  from 1 2 3 show ?thesis by blast
qed

theorem fetchTourists_derived_status_witness:
  "(0::nat) < length [aisha] \<and>
   filter (\<lambda>r. current_assignment_row.tourist_id r = profile_row.id ([aisha] ! 0))
     (in_status [''pending'', ''active''] [with_ali, with_badr]) \<noteq> [] \<and>
   current_assignment_row.status
     (last (filter (\<lambda>r. current_assignment_row.tourist_id r = profile_row.id ([aisha] ! 0))
              (in_status [''pending'', ''active''] [with_ali, with_badr]))) = ''pending'' \<and>
   Tourist.status
     (tourists (fst (fetchTourists initial_state (Inr [aisha])
        (Inr (in_status [''pending'', ''active''] [with_ali, with_badr])))) ! 0) = TouristPending \<and>
   Tourist.assignedGuide
     (tourists (fst (fetchTourists initial_state (Inr [aisha])
        (Inr (in_status [''pending'', ''active''] [with_ali, with_badr])))) ! 0) = ''Badr''"
proof -
  have i: "(0::nat) < length [aisha]" by simp
  have m: "filter (\<lambda>r. current_assignment_row.tourist_id r = profile_row.id ([aisha] ! 0))
     (in_status [''pending'', ''active''] [with_ali, with_badr]) = [with_ali, with_badr]"
    by (simp add: in_status_example) (simp add: aisha_def with_ali_def with_badr_def)
  note w = fetchTourists_derived_status
             [OF i, where table = "[with_ali, with_badr]" and s = initial_state]
  from w m have "Tourist.status
     (tourists (fst (fetchTourists initial_state (Inr [aisha])
        (Inr (in_status [''pending'', ''active''] [with_ali, with_badr])))) ! 0) = TouristPending"
    by (simp add: with_badr_def)
  moreover from w m have "Tourist.assignedGuide
     (tourists (fst (fetchTourists initial_state (Inr [aisha])
        (Inr (in_status [''pending'', ''active''] [with_ali, with_badr])))) ! 0) = ''Badr''"
    by (simp add: with_badr_def js_or_def truthy_def)
  ultimately show ?thesis using i m by (simp add: with_badr_def)
qed







subsection \<open>Tourist sign-up\<close>

lemma takeWhile_until:
  "\<forall>x \<in> set a. P x \<Longrightarrow> \<not> P y \<Longrightarrow> takeWhile P (a @ y # r) = a"
  by (induction a) auto

lemma dropWhile_until:
  "\<forall>x \<in> set a. P x \<Longrightarrow> \<not> P y \<Longrightarrow> dropWhile P (a @ y # r) = y # r"
  by (induction a) auto

lemma emailRegex_test_intro:
  assumes s: "s = a @ CHR ''@'' # b @ CHR ''.'' # c"
    and ne: "a \<noteq> []" "b \<noteq> []" "c \<noteq> []"
    and ok: "\<forall>x \<in> set (a @ b @ c). \<not> isWhiteSpace x \<and> x \<noteq> CHR ''@''"
  shows "emailRegex_test s"
proof -
  from ok have a: "\<forall>x \<in> set a. x \<noteq> CHR ''@''" by simp
  have t: "takeWhile (\<lambda>c. c \<noteq> CHR ''@'') s = a"
    unfolding s using a by (intro takeWhile_until) simp_all
  have d: "dropWhile (\<lambda>c. c \<noteq> CHR ''@'') s = CHR ''@'' # b @ CHR ''.'' # c"
    unfolding s using a by (intro dropWhile_until) simp_all
  obtain b0 b' where b: "b = b0 # b'" using ne(2) by (cases b) auto
  have "butlast (b' @ CHR ''.'' # c) = b' @ CHR ''.'' # butlast c"
    using ne(3) by (simp add: butlast_append)
  then have dot: "CHR ''.'' \<in> set (butlast (tl (b @ CHR ''.'' # c)))"
    by (simp add: b)
  have nows: "\<not> isWhiteSpace CHR ''.''" "CHR ''.'' \<noteq> CHR ''@''"
    by (simp_all add: isWhiteSpace_def)
  from ok have "\<not> list_ex isWhiteSpace a"
    and "\<not> list_ex (\<lambda>c. isWhiteSpace c \<or> c = CHR ''@'') (b @ CHR ''.'' # c)"
    using nows by (auto simp add: list_ex_iff)
  with ne dot show ?thesis
    unfolding emailRegex_test_def t d Let_def by simp
qed

lemma emailRegex_test_shape:
  assumes l: "emailRegex_test s"
  shows "\<exists>a b c. s = a @ CHR ''@'' # b @ CHR ''.'' # c \<and> a \<noteq> [] \<and> b \<noteq> [] \<and> c \<noteq> [] \<and>
        (\<forall>x \<in> set (a @ b @ c). \<not> isWhiteSpace x \<and> x \<noteq> CHR ''@'')"
proof -
  let ?a = "takeWhile (\<lambda>c. c \<noteq> CHR ''@'') s"
  let ?r = "dropWhile (\<lambda>c. c \<noteq> CHR ''@'') s"
  from l have a: "?a \<noteq> []" and aw: "\<not> list_ex isWhiteSpace ?a" and r: "?r \<noteq> []"
    and dw: "\<not> list_ex (\<lambda>c. isWhiteSpace c \<or> c = CHR ''@'') (tl ?r)"
    and dot: "CHR ''.'' \<in> set (butlast (tl (tl ?r)))"
    by (simp_all add: emailRegex_test_def Let_def)
  from r have "\<not> (hd ?r \<noteq> CHR ''@'')" by (rule hd_dropWhile)
  with r have rr: "?r = CHR ''@'' # tl ?r" by (metis list.collapse)
  obtain d where rd: "?r = CHR ''@'' # d" using rr by blast
  from dw rd have dok: "\<forall>x \<in> set d. \<not> isWhiteSpace x \<and> x \<noteq> CHR ''@''"
    by (simp add: list_ex_iff)
  from dot rd have dot': "CHR ''.'' \<in> set (butlast (tl d))" by simp
  then obtain h t where d: "d = h # t" by (cases d) auto
  from dot' d have dt: "CHR ''.'' \<in> set (butlast t)" by simp
  then obtain u v where uv: "butlast t = u @ CHR ''.'' # v"
    by (auto dest: split_list)
  from dt have "t \<noteq> []" by auto
  then have "butlast t @ [last t] = t" by (rule append_butlast_last_id)
  then have "(u @ CHR ''.'' # v) @ [last t] = t" by (simp only: uv)
  then have "\<exists>l. t = u @ CHR ''.'' # (v @ [l])"
    by (intro exI [of _ "last t"]) simp
  then obtain l where t: "t = u @ CHR ''.'' # (v @ [l])" by blast
  have "?a @ ?r = s" by simp
  then have e1: "?a @ CHR ''@'' # d = s" by (simp only: rd)
  have e2: "d = (h # u) @ CHR ''.'' # (v @ [l])" unfolding d t by simp
  have s: "s = ?a @ CHR ''@'' # (h # u) @ CHR ''.'' # (v @ [l])"
    by (rule e1 [symmetric, unfolded e2])
  have an: "\<forall>x \<in> set ?a. x \<noteq> CHR ''@''"
    by (auto dest: set_takeWhileD)
  from dok have dok': "\<forall>x \<in> set ((h # u) @ (v @ [l])). \<not> isWhiteSpace x \<and> x \<noteq> CHR ''@''"
    unfolding d t by simp
  from aw an dok' have ok:
    "\<forall>x \<in> set (?a @ (h # u) @ (v @ [l])). \<not> isWhiteSpace x \<and> x \<noteq> CHR ''@''"
    by (auto simp add: list_ex_iff)
  show ?thesis
  proof (intro exI conjI)
    show "s = ?a @ CHR ''@'' # (h # u) @ CHR ''.'' # (v @ [l])" by (rule s)
    show "?a \<noteq> []" by (rule a)
    show "h # u \<noteq> []" by simp
    show "v @ [l] \<noteq> []" by simp
    show "\<forall>x \<in> set (?a @ (h # u) @ (v @ [l])). \<not> isWhiteSpace x \<and> x \<noteq> CHR ''@''"
      by (rule ok)
  qed
qed

text \<open>The test accepts exactly the strings that the regular expression matches.\<close>

lemma emailRegex_test_iff:
  "emailRegex_test s \<longleftrightarrow>
     (\<exists>a b c. s = a @ CHR ''@'' # b @ CHR ''.'' # c \<and> a \<noteq> [] \<and> b \<noteq> [] \<and> c \<noteq> [] \<and>
        (\<forall>x \<in> set (a @ b @ c). \<not> isWhiteSpace x \<and> x \<noteq> CHR ''@''))"
proof
  assume "emailRegex_test s"
  then show "\<exists>a b c. s = a @ CHR ''@'' # b @ CHR ''.'' # c \<and> a \<noteq> [] \<and> b \<noteq> [] \<and> c \<noteq> [] \<and>
        (\<forall>x \<in> set (a @ b @ c). \<not> isWhiteSpace x \<and> x \<noteq> CHR ''@'')"
    by (rule emailRegex_test_shape)
next
  assume "\<exists>a b c. s = a @ CHR ''@'' # b @ CHR ''.'' # c \<and> a \<noteq> [] \<and> b \<noteq> [] \<and> c \<noteq> [] \<and>
        (\<forall>x \<in> set (a @ b @ c). \<not> isWhiteSpace x \<and> x \<noteq> CHR ''@'')"
  then show "emailRegex_test s"
    by (elim exE conjE) (rule emailRegex_test_intro)
qed

lemma signup_form_valid: "fst (validateInput (\<lambda>k. k) signup_form)"
  unfolding signup_form_def by code_simp

lemma signup_form_trimmed:
  "trim (fullName signup_form) = ''Aisha Noor''"
  "trim (phoneNumber signup_form) = ''+966500000000''"
  unfolding signup_form_def by code_simp+

text \<open>
  Claim C9. Whenever the form passes validation and the sign-up returns both a user and
  a session, \<open>handleSignUp\<close> upserts one row into \<open>profiles\<close> with the new user's id,
  \<open>user_type\<close> \<open>tourist\<close>, the trimmed full name and the trimmed phone number. Whether
  the upsert succeeds, returns an error or throws, the sign-up completes in the same
  way: the account-created toast is shown, \<open>onLoginSuccess\<close> is called with the user's
  id and the session, no error toast is shown; a failed upsert only adds a line on the
  console.
\<close>

theorem handleSignUp_upserts_profile:
  assumes valid: "fst (validateInput t s)"
    and u: "user data = Some u" and sess: "session data = Some sess"
  shows "snd (handleSignUp t origin s (Inr data) ups) =
           [AuthSignUp (identifier' s) (LoginState.password s)
              [(''emailRedirectTo'', JString (origin @ ''/'')),
               (''user_type'', JString ''tourist''),
               (''full_name'', JString (trim (fullName s))),
               (''phone_number'', JString (trim (phoneNumber s)))],
            Upsert ''profiles''
              [(''id'', JString (auth_user.id u)),
               (''user_type'', JString ''tourist''),
               (''full_name'', JString (trim (fullName s))),
               (''phone_number'', JString (trim (phoneNumber s))),
               (''contact_info'',
                  JString (if method' s = Phone then identifier' s else phoneNumber s))]] @
           (case ups of
              UpsertOk \<Rightarrow> []
            | UpsertError e \<Rightarrow> [ConsoleError ''Error creating profile:'']
            | UpsertThrows \<Rightarrow> [ConsoleError ''Profile creation failed:'']) @
           [Toast (t ''accountCreated'') (t ''welcomeTourist'') Default,
            OnLoginSuccess (auth_user.id u) sess] \<and>
         fst (handleSignUp t origin s (Inr data) ups) = s\<lparr>loading := False\<rparr> \<and>
         \<not> list_ex is_error_toast (snd (handleSignUp t origin s (Inr data) ups))"
  using assms by (cases ups) (simp_all add: handleSignUp_def profileData_def)

theorem handleSignUp_upserts_profile_witness:
  "fst (validateInput (\<lambda>k. k) signup_form) \<and>
   user new_user = Some \<lparr>auth_user.id = ''u1''\<rparr> \<and> session new_user = Some ''session-1'' \<and>
   snd (handleSignUp (\<lambda>k. k) ''https://alula.example'' signup_form (Inr new_user)
          (UpsertError (StoreError (Some ''permission denied'')))) =
     [AuthSignUp ''aisha@example.com'' ''secret1''
        [(''emailRedirectTo'', JString ''https://alula.example/''),
         (''user_type'', JString ''tourist''),
         (''full_name'', JString ''Aisha Noor''),
         (''phone_number'', JString ''+966500000000'')],
      Upsert ''profiles''
        [(''id'', JString ''u1''),
         (''user_type'', JString ''tourist''),
         (''full_name'', JString ''Aisha Noor''),
         (''phone_number'', JString ''+966500000000''),
         (''contact_info'', JString ''+966500000000 '')],
      ConsoleError ''Error creating profile:'',
      Toast ''accountCreated'' ''welcomeTourist'' Default,
      OnLoginSuccess ''u1'' ''session-1'']"
proof -
  have u: "user new_user = Some \<lparr>auth_user.id = ''u1''\<rparr>"
    and s: "session new_user = Some ''session-1''"
    by (simp_all add: new_user_def)
  note w = handleSignUp_upserts_profile
             [OF signup_form_valid u s, of "''https://alula.example''"
                "UpsertError (StoreError (Some ''permission denied''))"]
  from w have "snd (handleSignUp (\<lambda>k. k) ''https://alula.example'' signup_form (Inr new_user)
          (UpsertError (StoreError (Some ''permission denied'')))) =
     [AuthSignUp ''aisha@example.com'' ''secret1''
        [(''emailRedirectTo'', JString ''https://alula.example/''),
         (''user_type'', JString ''tourist''),
         (''full_name'', JString ''Aisha Noor''),
         (''phone_number'', JString ''+966500000000'')],
      Upsert ''profiles''
        [(''id'', JString ''u1''),
         (''user_type'', JString ''tourist''),
         (''full_name'', JString ''Aisha Noor''),
         (''phone_number'', JString ''+966500000000''),
         (''contact_info'', JString ''+966500000000 '')],
      ConsoleError ''Error creating profile:'',
      Toast ''accountCreated'' ''welcomeTourist'' Default,
      OnLoginSuccess ''u1'' ''session-1'']"
    by (simp add: signup_form_trimmed) (simp add: signup_form_def)
  with signup_form_valid u s show ?thesis by blast
qed

end
